theory Spec2Isabelle
  imports Complex_Main
begin

section \<open>Text primitives\<close>

text \<open>
  A Python \<^verbatim>\<open>str\<close> is modelled as a \<^typ>\<open>string\<close>: a list of characters with code
  points 0..255.  Code points above 255 are outside the model; the euro sign of the
  \<^verbatim>\<open>eur\<close> currency pattern is kept as its code point 8364, which no modelled
  character has.
\<close>

definition is_digit :: "char \<Rightarrow> bool" where
  "is_digit c = (48 \<le> (of_char c :: nat) \<and> (of_char c :: nat) \<le> 57)"

text \<open>Python's \<^verbatim>\<open>str.isspace\<close> and the regex class \<^verbatim>\<open>\s\<close> on code points below 256.\<close>

definition is_space :: "char \<Rightarrow> bool" where
  "is_space c = (let n = (of_char c :: nat) in
     (9 \<le> n \<and> n \<le> 13) \<or> (28 \<le> n \<and> n \<le> 32) \<or> n = 133 \<or> n = 160)"

text \<open>\<^verbatim>\<open>str.lower\<close> on code points below 256: A-Z and the accented capitals move by 32.\<close>

definition lower_char :: "char \<Rightarrow> char" where
  "lower_char c = (let n = (of_char c :: nat) in
     if (65 \<le> n \<and> n \<le> 90) \<or> (192 \<le> n \<and> n \<le> 222 \<and> n \<noteq> 215)
     then char_of (n + 32) else c)"

definition lower :: "string \<Rightarrow> string" where
  "lower s = map lower_char s"

text \<open>\<^verbatim>\<open>str.upper\<close>, used by the source on the ASCII keys of the currency table only.\<close>

definition upper_char :: "char \<Rightarrow> char" where
  "upper_char c = (let n = (of_char c :: nat) in
     if 97 \<le> n \<and> n \<le> 122 then char_of (n - 32) else c)"

definition upper :: "string \<Rightarrow> string" where
  "upper s = map upper_char s"

definition lstrip :: "string \<Rightarrow> string" where
  "lstrip s = dropWhile is_space s"

definition rstrip :: "string \<Rightarrow> string" where
  "rstrip s = rev (dropWhile is_space (rev s))"

definition strip :: "string \<Rightarrow> string" where
  "strip s = rstrip (lstrip s)"

text \<open>\<^verbatim>\<open>sub in s\<close>: substring test.\<close>

fun contains :: "string \<Rightarrow> string \<Rightarrow> bool" where
  "contains [] sub = (sub = [])"
| "contains (c # cs) sub = (take (length sub) (c # cs) = sub \<or> contains cs sub)"

text \<open>\<^verbatim>\<open>s.find(sub)\<close>: the first index at which \<open>sub\<close> occurs, \<open>None\<close> for Python's -1.\<close>

fun find_str :: "string \<Rightarrow> string \<Rightarrow> nat option" where
  "find_str [] sub = (if sub = [] then Some 0 else None)"
| "find_str (c # cs) sub =
     (if take (length sub) (c # cs) = sub then Some 0
      else map_option Suc (find_str cs sub))"

text \<open>\<^verbatim>\<open>s.split('\n')\<close>: always at least one piece.\<close>

fun split_lines :: "string \<Rightarrow> string list" where
  "split_lines [] = [[]]"
| "split_lines (c # cs) =
     (if c = CHR 0x0A then [] # split_lines cs
      else (case split_lines cs of l # ls \<Rightarrow> (c # l) # ls | [] \<Rightarrow> [[c]]))"

text \<open>\<^verbatim>\<open>sep.join(xs)\<close>.\<close>

fun join :: "string \<Rightarrow> string list \<Rightarrow> string" where
  "join sep [] = []"
| "join sep [x] = x"
| "join sep (x # y # ys) = x @ sep @ join sep (y # ys)"

section \<open>Figure extraction (base\_parser.py)\<close>

text \<open>
  The four entries of \<^verbatim>\<open>currency_patterns\<close>, in dictionary order.  Each regex is an
  optional currency symbol followed by \<^verbatim>\<open>\s*\<close> and the capture group
  \<^verbatim>\<open>([0-9,]+(?:\.[0-9]{2})?)\<close>; the entry holds the key and the symbol's code point.
\<close>

definition currency_patterns :: "(string \<times> nat option) list" where
  "currency_patterns =
     [(''usd'', Some 36), (''eur'', Some 8364), (''gbp'', Some 163), (''generic'', None)]"

definition is_num_char :: "char \<Rightarrow> bool" where
  "is_num_char c = (is_digit c \<or> c = CHR '','')"

text \<open>
  The capture group matched at the head of a string: the longest run of digits and
  commas, then the two-decimal tail when it is there.  Returns the match and the rest.
\<close>

definition number_at :: "string \<Rightarrow> (string \<times> string) option" where
  "number_at s =
     (let run = takeWhile is_num_char s; rest = dropWhile is_num_char s in
      if run = [] then None
      else (case rest of
              c # d1 # d2 # rest' \<Rightarrow>
                if c = CHR ''.'' \<and> is_digit d1 \<and> is_digit d2
                then Some (run @ [c, d1, d2], rest')
                else Some (run, rest)
            | _ \<Rightarrow> Some (run, rest)))"

text \<open>A whole pattern matched at the head of a string; the result is group 1 and the rest.\<close>

definition match_at :: "nat option \<Rightarrow> string \<Rightarrow> (string \<times> string) option" where
  "match_at symb s =
     (case symb of
        None \<Rightarrow> number_at s
      | Some cp \<Rightarrow>
          (case s of
             [] \<Rightarrow> None
           | c # cs \<Rightarrow> if (of_char c :: nat) = cp then number_at (dropWhile is_space cs) else None))"

lemma number_at_shorter: "number_at s = Some (m, r) \<Longrightarrow> length r < length s"
proof -
  assume a: "number_at s = Some (m, r)"
  define rest where "rest = dropWhile is_num_char s"
  have run: "takeWhile is_num_char s \<noteq> []"
    using a by (auto simp: number_at_def Let_def split: if_splits)
  have "length (takeWhile is_num_char s) + length rest = length s"
    unfolding rest_def by (metis length_append takeWhile_dropWhile_id)
  with run have d: "length rest < length s"
    by (cases "takeWhile is_num_char s") auto
  have "length r \<le> length rest"
    using a run unfolding number_at_def Let_def rest_def [symmetric]
    by (cases rest rule: list.exhaust) (auto split: if_splits list.splits)
  with d show ?thesis by simp
qed

lemma match_at_shorter: "match_at symb s = Some (m, r) \<Longrightarrow> length r < length s"
proof (cases symb)
  case None
  assume "match_at symb s = Some (m, r)"
  with None show ?thesis by (simp add: match_at_def number_at_shorter)
next
  case (Some cp)
  assume a: "match_at symb s = Some (m, r)"
  then obtain c cs where s: "s = c # cs" and n: "number_at (dropWhile is_space cs) = Some (m, r)"
    using Some by (auto simp: match_at_def split: list.splits if_splits)
  have "length r < length (dropWhile is_space cs)" using n by (rule number_at_shorter)
  also have "\<dots> \<le> length cs" by (rule length_dropWhile_le)
  finally show ?thesis using s by simp
qed

text \<open>\<^verbatim>\<open>pattern.findall(text)\<close>: scan left to right, non-overlapping, collecting group 1.\<close>

function findall :: "nat option \<Rightarrow> string \<Rightarrow> string list" where
  "findall symb [] = []"
| "findall symb (c # cs) =
     (case match_at symb (c # cs) of
        Some (m, rest) \<Rightarrow> m # findall symb rest
      | None \<Rightarrow> findall symb cs)"
  by pat_completeness auto
termination
  by (relation "measure (\<lambda>(symb, s). length s)") (auto dest: match_at_shorter)

text \<open>
  \<^verbatim>\<open>Decimal(s)\<close> on the strings the capture group can yield once the commas are
  removed: digits with an optional fractional part, at least one digit in all.  Every
  other string is \<open>None\<close>, the source's \<^verbatim>\<open>InvalidOperation\<close>.
\<close>

definition digits_val :: "string \<Rightarrow> nat" where
  "digits_val ds = foldl (\<lambda>a c. 10 * a + ((of_char c :: nat) - 48)) 0 ds"

definition Decimal :: "string \<Rightarrow> rat option" where
  "Decimal s =
     (let ip = takeWhile is_digit s; r = dropWhile is_digit s in
      case r of
        [] \<Rightarrow> if ip = [] then None else Some (of_nat (digits_val ip))
      | c # fp \<Rightarrow>
          if c = CHR ''.'' \<and> list_all is_digit fp \<and> (ip \<noteq> [] \<or> fp \<noteq> [])
          then Some (of_nat (digits_val ip) + of_nat (digits_val fp) / 10 ^ length fp)
          else None)"

record figure =
  amount :: rat
  currency :: string
  raw_text :: string
  context_str :: string

text \<open>\<^verbatim>\<open>_get_context\<close>: the window around the first occurrence, found case-insensitively.\<close>

definition get_context :: "string \<Rightarrow> string \<Rightarrow> nat \<Rightarrow> string" where
  "get_context text trm window =
     (case find_str (lower text) (lower trm) of
        None \<Rightarrow> []
      | Some position \<Rightarrow>
          (let start = position - window;
               stop = min (length text) (position + length trm + window)
           in take (stop - start) (drop start text)))"

definition remove_commas :: "string \<Rightarrow> string" where
  "remove_commas m = filter (\<lambda>c. c \<noteq> CHR '','') m"

text \<open>The inner loop of \<^verbatim>\<open>extract_financial_figures\<close> for one pattern: a match whose
  number does not parse is skipped (\<^verbatim>\<open>continue\<close>).\<close>

definition figure_of_match :: "string \<Rightarrow> string \<Rightarrow> string \<Rightarrow> figure option" where
  "figure_of_match text cur m =
     (case Decimal (remove_commas m) of
        None \<Rightarrow> None
      | Some a \<Rightarrow>
          Some \<lparr>amount = a,
                currency = (if cur \<noteq> ''generic'' then upper cur else ''USD''),
                raw_text = m,
                context_str = get_context text m 50\<rparr>)"

definition figures_of_pattern :: "string \<Rightarrow> string \<times> nat option \<Rightarrow> figure list" where
  "figures_of_pattern text p =
     List.map_filter (figure_of_match text (fst p)) (findall (snd p) text)"

definition extract_financial_figures :: "string \<Rightarrow> figure list" where
  "extract_financial_figures text = concat (map (figures_of_pattern text) currency_patterns)"

definition is_amount_char :: "char \<Rightarrow> bool" where
  "is_amount_char c = (is_digit c \<or> c = CHR '','' \<or> c = CHR ''.'')"

section \<open>Table structure detection (base\_parser.py)\<close>

record table_row =
  row_text :: string
  amounts :: "figure list"

record detected_table =
  rows :: "table_row list"
  row_count :: nat

definition table_of_rows :: "table_row list \<Rightarrow> detected_table" where
  "table_of_rows current_table = \<lparr>rows = current_table, row_count = length current_table\<rparr>"

text \<open>The flush the source performs when a run of rows ends: kept from three rows on.\<close>

definition flush_table :: "table_row list \<Rightarrow> detected_table list \<Rightarrow> detected_table list" where
  "flush_table current_table tables =
     (if 3 \<le> length current_table then tables @ [table_of_rows current_table] else tables)"

text \<open>The \<^verbatim>\<open>for line in lines\<close> loop of \<^verbatim>\<open>detect_table_structure\<close>, with its two
  mutable locals, and the flush after the loop.\<close>

fun detect_loop :: "string list \<Rightarrow> table_row list \<Rightarrow> detected_table list \<Rightarrow> detected_table list" where
  "detect_loop [] current_table tables = flush_table current_table tables"
| "detect_loop (line # lines) current_table tables =
     (let amts = extract_financial_figures line in
      if 2 \<le> length amts
      then detect_loop lines (current_table @ [\<lparr>row_text = strip line, amounts = amts\<rparr>]) tables
      else detect_loop lines [] (flush_table current_table tables))"

definition detect_table_structure :: "string \<Rightarrow> detected_table list" where
  "detect_table_structure text = detect_loop (split_lines text) [] []"

text \<open>
  The specification's wording, for comparison with the loop: a line qualifies when it
  holds at least two recognized figures, and the candidate tables are the maximal runs
  of consecutive qualifying lines.
\<close>

definition qualifies :: "string \<Rightarrow> bool" where
  "qualifies line = (2 \<le> length (extract_financial_figures line))"

function maximal_runs :: "('a \<Rightarrow> bool) \<Rightarrow> 'a list \<Rightarrow> 'a list list" where
  "maximal_runs P [] = []"
| "maximal_runs P (x # xs) =
     (if P x then (x # takeWhile P xs) # maximal_runs P (dropWhile P xs)
      else maximal_runs P xs)"
  by pat_completeness auto
termination
  by (relation "measure (\<lambda>(P, xs). length xs)") (auto simp: length_dropWhile_le less_Suc_eq_le)

definition row_of_line :: "string \<Rightarrow> table_row" where
  "row_of_line line = \<lparr>row_text = strip line, amounts = extract_financial_figures line\<rparr>"

definition spec_tables :: "string \<Rightarrow> detected_table list" where
  "spec_tables text =
     map (\<lambda>run. table_of_rows (map row_of_line run))
       (filter (\<lambda>run. 3 \<le> length run) (maximal_runs qualifies (split_lines text)))"

section \<open>Chunking (base\_parser.py)\<close>

text \<open>Python slice bounds: a negative index counts from the end, and both ends are
  clamped to the string.\<close>

definition slice_index :: "int \<Rightarrow> nat \<Rightarrow> nat" where
  "slice_index i n = (if i < 0 then nat (max 0 (i + int n)) else min (nat i) n)"

definition slice :: "string \<Rightarrow> int \<Rightarrow> int \<Rightarrow> string" where
  "slice s i j =
     (let a = slice_index i (length s); b = slice_index j (length s)
      in take (b - a) (drop a s))"

text \<open>\<^verbatim>\<open>s.rfind(c, i, j)\<close> for a one-character needle: the highest index in the slice
  bounds holding \<open>c\<close>, or -1.\<close>

definition rfind_char :: "string \<Rightarrow> char \<Rightarrow> int \<Rightarrow> int \<Rightarrow> int" where
  "rfind_char s c i j =
     (let a = slice_index i (length s); b = slice_index j (length s)
      in case filter (\<lambda>k. s ! k = c) (rev [a..<b]) of
           [] \<Rightarrow> - 1
         | k # _ \<Rightarrow> int k)"

text \<open>One pass through the body of the \<^verbatim>\<open>while\<close> loop of \<^verbatim>\<open>_split_into_chunks\<close>:
  the new chunk list and the new start position.\<close>

definition chunk_step :: "string \<Rightarrow> int \<Rightarrow> int \<Rightarrow> int \<Rightarrow> string list \<Rightarrow> string list \<times> int" where
  "chunk_step text chunk_size overlap start chunks =
     (let n = int (length text);
          end0 = min (start + chunk_size) n;
          sentence_end = rfind_char text CHR ''.'' (end0 - 100) end0;
          end1 = (if end0 < n \<and> sentence_end > start then sentence_end + 1 else end0);
          chunk = strip (slice text start end1)
      in (if chunk \<noteq> [] then chunks @ [chunk] else chunks, end1 - overlap))"

text \<open>The loop itself.  It need not terminate, so it is a partial function: \<open>None\<close> is
  the loop that never returns.\<close>

partial_function (option) chunk_loop ::
  "string \<Rightarrow> int \<Rightarrow> int \<Rightarrow> int \<Rightarrow> string list \<Rightarrow> string list option" where
  "chunk_loop text chunk_size overlap start chunks =
     (if start < int (length text)
      then (case chunk_step text chunk_size overlap start chunks of
              (chunks', start') \<Rightarrow>
                if start' \<ge> int (length text) then Some chunks'
                else chunk_loop text chunk_size overlap start' chunks')
      else Some chunks)"

definition split_into_chunks :: "string \<Rightarrow> int \<Rightarrow> int \<Rightarrow> string list option" where
  "split_into_chunks text chunk_size overlap =
     (if int (length text) \<le> chunk_size then Some [text]
      else chunk_loop text chunk_size overlap 0 [])"

section \<open>Category patterns and the classifier\<close>

text \<open>
  The category patterns use five regex constructs: a literal character, \<^verbatim>\<open>\s\<close>,
  \<^verbatim>\<open>.\<close> (any character but a newline), and the postfix operators \<^verbatim>\<open>+\<close>,
  \<^verbatim>\<open>*\<close> and \<^verbatim>\<open>?\<close> on one of these.  A pattern is a sequence of such items.
  \<^verbatim>\<open>re.search\<close> is used for its truth value only, so the matcher decides whether
  some match exists.
\<close>

datatype atom = Lit char | Space | Dot

datatype item = One atom | Plus atom | Star atom | Opt atom

type_synonym regex = "item list"

fun atom_ok :: "atom \<Rightarrow> char \<Rightarrow> bool" where
  "atom_ok (Lit a) c = (c = a)"
| "atom_ok Space c = is_space c"
| "atom_ok Dot c = (c \<noteq> CHR 0x0A)"

function match_here :: "regex \<Rightarrow> string \<Rightarrow> bool" where
  "match_here [] s = True"
| "match_here (One a # r) [] = False"
| "match_here (One a # r) (c # cs) = (atom_ok a c \<and> match_here r cs)"
| "match_here (Opt a # r) [] = match_here r []"
| "match_here (Opt a # r) (c # cs) = ((atom_ok a c \<and> match_here r cs) \<or> match_here r (c # cs))"
| "match_here (Star a # r) [] = match_here r []"
| "match_here (Star a # r) (c # cs) =
     ((atom_ok a c \<and> match_here (Star a # r) cs) \<or> match_here r (c # cs))"
| "match_here (Plus a # r) [] = False"
| "match_here (Plus a # r) (c # cs) = (atom_ok a c \<and> match_here (Star a # r) cs)"
  by pat_completeness auto
termination
  by (relation "measures [\<lambda>(r, s). length s, \<lambda>(r, s). length r]") auto

text \<open>\<^verbatim>\<open>re.search(pattern, s)\<close> as a truth value: a match starting at some position.\<close>

fun re_search :: "regex \<Rightarrow> string \<Rightarrow> bool" where
  "re_search p [] = match_here p []"
| "re_search p (c # cs) = (match_here p (c # cs) \<or> re_search p cs)"

text \<open>Pattern notation: \<open>lit w\<close> is the word \<open>w\<close>, \<open>ws\<close> is \<^verbatim>\<open>\s+\<close>,
  \<open>dot\<close> is \<^verbatim>\<open>.\<close> and \<open>dots\<close> is \<^verbatim>\<open>.*\<close>.\<close>

definition lit :: "string \<Rightarrow> regex" where
  "lit w = map (\<lambda>c. One (Lit c)) w"

definition ws :: regex where
  "ws = [Plus Space]"

definition dot :: regex where
  "dot = [One Dot]"

definition dots :: regex where
  "dots = [Star Dot]"

datatype AssetCategory =
  CASH_AND_EQUIVALENTS | ACCOUNTS_RECEIVABLE | INVENTORY | PROPERTY_PLANT_EQUIPMENT

datatype LiabilityCategory = ACCOUNTS_PAYABLE | SHORT_TERM_DEBT | LONG_TERM_DEBT

datatype EquityCategory = SHARE_CAPITAL | RETAINED_EARNINGS

text \<open>The enum values (models/balance\_sheet.py) of the members the pattern tables use.\<close>

fun asset_value :: "AssetCategory \<Rightarrow> string" where
  "asset_value CASH_AND_EQUIVALENTS = ''cash_and_equivalents''"
| "asset_value ACCOUNTS_RECEIVABLE = ''accounts_receivable''"
| "asset_value INVENTORY = ''inventory''"
| "asset_value PROPERTY_PLANT_EQUIPMENT = ''property_plant_equipment''"

fun liability_value :: "LiabilityCategory \<Rightarrow> string" where
  "liability_value ACCOUNTS_PAYABLE = ''accounts_payable''"
| "liability_value SHORT_TERM_DEBT = ''short_term_debt''"
| "liability_value LONG_TERM_DEBT = ''long_term_debt''"

fun equity_value :: "EquityCategory \<Rightarrow> string" where
  "equity_value SHARE_CAPITAL = ''share_capital''"
| "equity_value RETAINED_EARNINGS = ''retained_earnings''"

text \<open>The three pattern dictionaries of \<^verbatim>\<open>_setup_patterns\<close>, in insertion order.\<close>

definition asset_patterns :: "(AssetCategory \<times> regex list) list" where
  "asset_patterns =
     [(CASH_AND_EQUIVALENTS,
        [lit ''cash'' @ ws @ lit ''and'' @ ws @ lit ''cash'' @ ws @ lit ''equivalents'',
         lit ''cash'' @ ws @ lit ''equivalents'',
         lit ''cash'',
         lit ''short'' @ dot @ lit ''term'' @ ws @ lit ''investments'',
         lit ''marketable'' @ ws @ lit ''securities'']),
      (ACCOUNTS_RECEIVABLE,
        [lit ''accounts'' @ ws @ lit ''receivable'',
         lit ''receivables'',
         lit ''trade'' @ ws @ lit ''receivables'',
         lit ''net'' @ ws @ lit ''receivables'']),
      (INVENTORY,
        [lit ''inventory'',
         lit ''inventories'',
         lit ''raw'' @ ws @ lit ''materials'',
         lit ''work'' @ ws @ lit ''in'' @ ws @ lit ''process'',
         lit ''finished'' @ ws @ lit ''goods'']),
      (PROPERTY_PLANT_EQUIPMENT,
        [lit ''property'' @ [Opt (Lit CHR '','')] @ ws @ lit ''plant'' @ ws @ lit ''and'' @ ws @
           lit ''equipment'',
         lit ''ppe'',
         lit ''fixed'' @ ws @ lit ''assets'',
         lit ''plant'' @ ws @ lit ''and'' @ ws @ lit ''equipment''])]"

definition liability_patterns :: "(LiabilityCategory \<times> regex list) list" where
  "liability_patterns =
     [(ACCOUNTS_PAYABLE,
        [lit ''accounts'' @ ws @ lit ''payable'',
         lit ''trade'' @ ws @ lit ''payables'',
         lit ''payables'']),
      (SHORT_TERM_DEBT,
        [lit ''short'' @ dot @ lit ''term'' @ ws @ lit ''debt'',
         lit ''current'' @ ws @ lit ''portion'' @ dots @ lit ''debt'',
         lit ''notes'' @ ws @ lit ''payable'']),
      (LONG_TERM_DEBT,
        [lit ''long'' @ dot @ lit ''term'' @ ws @ lit ''debt'',
         lit ''debt'' @ dots @ lit ''long'' @ dot @ lit ''term'',
         lit ''bonds'' @ ws @ lit ''payable''])]"

definition equity_patterns :: "(EquityCategory \<times> regex list) list" where
  "equity_patterns =
     [(SHARE_CAPITAL,
        [lit ''common'' @ ws @ lit ''stock'',
         lit ''share'' @ ws @ lit ''capital'',
         lit ''capital'' @ ws @ lit ''stock'',
         lit ''ordinary'' @ ws @ lit ''shares'']),
      (RETAINED_EARNINGS,
        [lit ''retained'' @ ws @ lit ''earnings'',
         lit ''accumulated'' @ ws @ lit ''earnings'',
         lit ''earnings'' @ ws @ lit ''retained''])]"

text \<open>The nested \<^verbatim>\<open>for category ... for pattern ... if re.search: return\<close> iteration over
  one dictionary: the first category, in order, one of whose patterns matches.\<close>

fun first_match :: "('c \<times> regex list) list \<Rightarrow> string \<Rightarrow> 'c option" where
  "first_match [] s = None"
| "first_match ((category, patterns) # rest) s =
     (if list_ex (\<lambda>p. re_search p s) patterns then Some category else first_match rest s)"

text \<open>\<^verbatim>\<open>any(term in s for term in terms)\<close>.\<close>

definition any_in :: "string list \<Rightarrow> string \<Rightarrow> bool" where
  "any_in terms s = list_ex (\<lambda>t. contains s t) terms"

text \<open>The coarse keyword lists of the CSV back-end's classifier.\<close>

definition general_category :: "string \<Rightarrow> string" where
  "general_category item_lower =
     (if any_in [''asset'', ''cash'', ''receivable'', ''inventory'', ''property'', ''equipment'',
                 ''investment''] item_lower
      then ''asset_other''
      else if any_in [''liability'', ''payable'', ''debt'', ''loan'', ''obligation'', ''accrued'']
                item_lower
      then ''liability_other''
      else if any_in [''equity'', ''capital'', ''earnings'', ''retained'', ''stock''] item_lower
      then ''equity_other''
      else ''unknown'')"

text \<open>\<^verbatim>\<open>CSVParser._categorize_balance_sheet_item\<close>.\<close>

definition categorize_balance_sheet_item :: "string \<Rightarrow> string" where
  "categorize_balance_sheet_item item_name =
     (let item_lower = lower item_name in
      case first_match asset_patterns item_lower of
        Some category \<Rightarrow> ''asset_'' @ asset_value category
      | None \<Rightarrow>
          (case first_match liability_patterns item_lower of
             Some category \<Rightarrow> ''liability_'' @ liability_value category
           | None \<Rightarrow>
               (case first_match equity_patterns item_lower of
                  Some category \<Rightarrow> ''equity_'' @ equity_value category
                | None \<Rightarrow> general_category item_lower)))"

text \<open>Whether some pattern of a dictionary, or of one of its entries, matches.\<close>

definition entry_matches :: "'c \<times> regex list \<Rightarrow> string \<Rightarrow> bool" where
  "entry_matches e s = list_ex (\<lambda>p. re_search p s) (snd e)"

definition table_matches :: "('c \<times> regex list) list \<Rightarrow> string \<Rightarrow> bool" where
  "table_matches tbl s = list_ex (\<lambda>e. entry_matches e s) tbl"

section \<open>The CSV back-end's data frame functions (csv\_parser.py)\<close>

text \<open>
  A pandas data frame is modelled by its column labels and its rows, every row holding
  one cell per column.  A cell of the frame as read is \<open>None\<close> for NaN and otherwise the
  text \<^verbatim>\<open>str(cell)\<close>; after cleaning every cell is a text.
\<close>

record 'c dataframe =
  columns :: "string list"
  df_rows :: "'c list list"

definition empty :: "'c dataframe \<Rightarrow> bool" where
  "empty df = (columns df = [] \<or> df_rows df = [])"

definition cell :: "'c \<Rightarrow> 'c list \<Rightarrow> nat \<Rightarrow> 'c" where
  "cell dflt row j = (if j < length row then row ! j else dflt)"

text \<open>\<^verbatim>\<open>CSVParser._clean_dataframe\<close>: drop the rows that are all NaN, then the columns that
  are all NaN, turn NaN into the empty text, drop the rows whose cells are all empty.\<close>

definition clean_dataframe :: "string option dataframe \<Rightarrow> string dataframe" where
  "clean_dataframe df =
     (let rows1 = filter (\<lambda>r. \<not> list_all (\<lambda>c. c = None) r) (df_rows df);
          keep = filter (\<lambda>j. list_ex (\<lambda>r. cell None r j \<noteq> None) rows1) [0..<length (columns df)];
          rows2 = map (\<lambda>r. map (\<lambda>j. case cell None r j of None \<Rightarrow> [] | Some s \<Rightarrow> s) keep) rows1
      in \<lparr>columns = map (\<lambda>j. columns df ! j) keep,
          df_rows = filter (\<lambda>r. \<not> list_all (\<lambda>c. c = []) r) rows2\<rparr>)"

text \<open>\<^verbatim>\<open>CSVParser._dataframe_to_text\<close>.\<close>

definition keep_row_text :: "string list \<Rightarrow> bool" where
  "keep_row_text row =
     (let row_text = join '','' row in
      strip row_text \<noteq> [] \<and> row_text \<noteq> replicate (length row - 1) CHR '','')"

definition dataframe_to_text :: "string dataframe \<Rightarrow> string" where
  "dataframe_to_text df =
     join [CHR 0x0A]
       ((if columns df \<noteq> [] then [join '','' (columns df)] else []) @
        map (join '','') (filter keep_row_text (df_rows df)))"

text \<open>\<^verbatim>\<open>CSVParser._is_balance_sheet_line_item\<close>.\<close>

definition is_balance_sheet_line_item :: "string \<Rightarrow> bool" where
  "is_balance_sheet_line_item item_name =
     any_in [''cash'', ''receivable'', ''inventory'', ''asset'', ''property'', ''equipment'',
             ''investment'', ''goodwill'', ''intangible'',
             ''payable'', ''debt'', ''liability'', ''loan'', ''obligation'', ''accrued'',
             ''equity'', ''capital'', ''earnings'', ''retained'', ''stock'', ''share'']
       (lower item_name)"

record item_data =
  name :: string
  category :: string
  item_amounts :: "figure list"
  row_data :: "string list"

record balance_sheet_items =
  assets :: "item_data list"
  liabilities :: "item_data list"
  equity :: "item_data list"

definition startswith :: "string \<Rightarrow> string \<Rightarrow> bool" where
  "startswith s pre = (take (length pre) s = pre)"

text \<open>The body of the row loop of \<^verbatim>\<open>_extract_balance_sheet_from_dataframe\<close>.\<close>

definition add_row_item :: "string list \<Rightarrow> balance_sheet_items \<Rightarrow> balance_sheet_items" where
  "add_row_item row items =
     (case row of
        [] \<Rightarrow> items
      | c0 # rest \<Rightarrow>
          (let item_name = strip c0 in
           if item_name = [] \<or> lower item_name \<in> set [[], ''nan'', ''none''] then items
           else if is_balance_sheet_line_item item_name then
             (let cat = categorize_balance_sheet_item item_name;
                  item = \<lparr>name = item_name, category = cat,
                          item_amounts = extract_financial_figures (join '' '' rest),
                          row_data = row\<rparr>
              in if startswith cat ''asset_'' then items\<lparr>assets := assets items @ [item]\<rparr>
                 else if startswith cat ''liability_''
                   then items\<lparr>liabilities := liabilities items @ [item]\<rparr>
                 else if startswith cat ''equity_'' then items\<lparr>equity := equity items @ [item]\<rparr>
                 else items)
           else items))"

definition extract_balance_sheet_from_dataframe :: "string dataframe \<Rightarrow> balance_sheet_items" where
  "extract_balance_sheet_from_dataframe df =
     (if empty df then \<lparr>assets = [], liabilities = [], equity = []\<rparr>
      else foldl (\<lambda>items row. add_row_item row items)
             \<lparr>assets = [], liabilities = [], equity = []\<rparr> (df_rows df))"

text \<open>\<^verbatim>\<open>CSVParser._is_financial_dataframe\<close>.  Columns are read by position (pandas reads
  them by label, and the labels of a frame read from a file are distinct).  The
  comparison \<^verbatim>\<open>float(amount) > 1000\<close> is exact on amounts with two decimals.\<close>

definition is_financial_dataframe :: "string dataframe \<Rightarrow> bool" where
  "is_financial_dataframe df =
     (if empty df then False
      else
        (let has_financial_headers =
               list_ex (any_in [''assets'', ''liabilities'', ''equity'', ''amount'', ''balance'',
                                ''total'', ''current'', ''long-term'', ''cash'', ''receivables'',
                                ''inventory'', ''debt'', ''capital'', ''earnings'', ''value''])
                 (map lower (columns df));
             first_column_text =
               join '' '' (map (\<lambda>r. lower (cell [] r 0)) (take 10 (df_rows df)));
             has_financial_items =
               any_in [''cash'', ''receivable'', ''inventory'', ''payable'', ''debt'', ''equity'',
                       ''asset'', ''liability''] first_column_text;
             has_large_numbers =
               list_ex (\<lambda>j. list_ex (\<lambda>fig. amount fig > 1000)
                               (extract_financial_figures
                                  (join '' '' (map (\<lambda>r. cell [] r j) (take 5 (df_rows df))))))
                 [1..<length (columns df)]
         in has_financial_headers \<or> (has_financial_items \<and> has_large_numbers)))"

text \<open>\<^verbatim>\<open>str.isdigit\<close> on code points below 256: the ASCII digits and the superscripts
  one, two and three.\<close>

definition isdigit :: "char \<Rightarrow> bool" where
  "isdigit c = (is_digit c \<or> (of_char c :: nat) \<in> set [178, 179, 185])"

text \<open>The section label a first-column cell contributes in \<^verbatim>\<open>_analyze_csv_structure\<close>.\<close>

definition section_of :: "string \<Rightarrow> string option" where
  "section_of item_name =
     (if any_in [''assets'', ''current assets'', ''non-current assets''] item_name
      then Some ''assets''
      else if any_in [''liabilities'', ''current liabilities'', ''long-term''] item_name
      then Some ''liabilities''
      else if any_in [''equity'', ''shareholders equity'', ''stockholders''] item_name
      then Some ''equity''
      else None)"

record analysis =
  likely_balance_sheet :: bool
  confidence_score :: rat
  structure_type :: string
  time_series :: bool
  multi_period :: bool
  identified_sections :: "string set"

text \<open>
  \<^verbatim>\<open>CSVParser._analyze_csv_structure\<close>.  The score is a sum of multiples of five, so
  \<^verbatim>\<open>bs_score / 100.0\<close> and its comparison with \<^verbatim>\<open>0.3\<close> are the same in floating
  point and in the rationals.  \<^verbatim>\<open>list(set(sections))\<close> is kept as a set.
\<close>

definition analyze_csv_structure :: "string dataframe \<Rightarrow> analysis" where
  "analyze_csv_structure df =
     (if empty df
      then \<lparr>likely_balance_sheet = False, confidence_score = 0, structure_type = ''unknown'',
            time_series = False, multi_period = False, identified_sections = {}\<rparr>
      else
        (let all_text = lower (dataframe_to_text df);
             score0 = (\<Sum>t \<leftarrow> filter (contains all_text)
                          [''assets'', ''liabilities'', ''equity'', ''balance sheet'']. (10::nat));
             date_like_columns = length (filter (list_ex isdigit) (tl (columns df)));
             is_series = (length (columns df) > 2 \<and> date_like_columns \<ge> 2);
             score1 = (if is_series then score0 + 15 else score0);
             bs_items = length (filter is_balance_sheet_line_item
                          (map (\<lambda>r. lower (cell [] r 0)) (take 20 (df_rows df))));
             likely0 = (bs_items \<ge> 5);
             score2 = (if likely0 then score1 + 20 else score1);
             sections = List.map_filter (\<lambda>r. section_of (strip (lower (cell [] r 0)))) (df_rows df);
             bs_score = (if length sections \<ge> 2 then score2 + 25 else score2);
             stype = (if likely0 then ''balance_sheet''
                      else if is_series then ''time_series_financial''
                      else if is_financial_dataframe df then ''financial_data''
                      else ''general_data'');
             confidence = min (of_nat bs_score / 100) (1::rat)
         in \<lparr>likely_balance_sheet = (confidence > 3 / 10), confidence_score = confidence,
              structure_type = stype, time_series = is_series, multi_period = is_series,
              identified_sections = set sections\<rparr>))"

text \<open>The frame pandas reads from the CSV file of the specification's scenario.\<close>

definition scenario_frame :: "string option dataframe" where
  "scenario_frame =
     \<lparr>columns = [''Item'', ''2023'', ''2022''],
      df_rows = [[Some ''Cash and equivalents'', Some ''1000'', Some ''900''],
                 [Some ''Accounts payable'', Some ''500'', Some ''450''],
                 [Some ''Total assets'', Some ''1500'', Some ''1350'']]\<rparr>"

section \<open>The uniform result and the entry points\<close>

text \<open>
  \<^verbatim>\<open>DocumentChunk\<close> with the fields the parsers set (\<^verbatim>\<open>document_id\<close> is a fresh
  random identifier and is left out), and \<^verbatim>\<open>ParsingResult\<close>.  The table and metadata
  dictionaries differ from back-end to back-end, so their types are parameters.
\<close>

record DocumentChunk =
  chunk_index :: nat
  chunk_text :: string
  section_type :: "string option"
  financial_figures :: "figure list"

record ('t, 'm) ParsingResult =
  success :: bool
  chunks :: "DocumentChunk list"
  tables :: "'t list"
  figures :: "figure list"
  metadata :: "'m option"
  errors :: "string list"
  warnings :: "string list"

text \<open>\<^verbatim>\<open>ParsingResult(success=False)\<close>: every other field at its default.\<close>

definition failed_result :: "('t, 'm) ParsingResult" where
  "failed_result =
     \<lparr>success = False, chunks = [], tables = [], figures = [], metadata = None,
      errors = [], warnings = []\<rparr>"

text \<open>The \<^verbatim>\<open>for i, chunk_text in enumerate(text_chunks)\<close> loop that builds the chunks.\<close>

definition make_chunks :: "string option \<Rightarrow> string list \<Rightarrow> DocumentChunk list" where
  "make_chunks section text_chunks =
     map (\<lambda>(i, chunk). \<lparr>chunk_index = i, chunk_text = chunk, section_type = section,
                          financial_figures = extract_financial_figures chunk\<rparr>)
       (List.enumerate 0 text_chunks)"

text \<open>
  A Python exception, with its message \<^verbatim>\<open>str(e)\<close>.  Only instances of
  \<^verbatim>\<open>Exception\<close> are modelled; an interrupt of the interpreter is not a failure of
  the parse.  The outcome of a function body is \<open>None\<close> when it never returns,
  \<open>Some (Inl e)\<close> when it raises and \<open>Some (Inr r)\<close> when it returns \<open>r\<close>.
\<close>

datatype exn = Exn string

type_synonym 'a outcome = "(exn + 'a) option"

text \<open>The \<^verbatim>\<open>try: ... except Exception as e: return ParsingResult(success=False,
  errors=[f"... failed: {str(e)}"])\<close> that wraps the body of every \<^verbatim>\<open>parse\<close>.\<close>

definition guarded :: "string \<Rightarrow> ('t, 'm) ParsingResult outcome \<Rightarrow> ('t, 'm) ParsingResult outcome" where
  "guarded prefix body =
     (case body of
        None \<Rightarrow> None
      | Some (Inl (Exn msg)) \<Rightarrow> Some (Inr (failed_result\<lparr>errors := [prefix @ msg]\<rparr>))
      | Some (Inr r) \<Rightarrow> Some (Inr r))"


text \<open>\<^verbatim>\<open>text[len(text) - 100:].strip()\<close>: the chunk of the pass that starts 100
  characters before the end of the text, the pass the loop ends up repeating.\<close>

definition last_window :: "string \<Rightarrow> string" where
  "last_window text = strip (slice text (int (length text) - 100) (int (length text)))"

text \<open>
  The call \<^verbatim>\<open>self._split_into_chunks(text)\<close> as the entry points make it.  When the
  loop ends, the call returns the chunks.  When it does not end, it repeats its last
  pass: if that pass appends a chunk, the list grows beyond every bound and the call
  raises \<^verbatim>\<open>MemoryError\<close> (whose message is empty); if the last window is blank,
  nothing is appended and the call never returns.
\<close>

definition chunking :: "string \<Rightarrow> string list outcome" where
  "chunking text =
     (case split_into_chunks text 500 100 of
        Some text_chunks \<Rightarrow> Some (Inr text_chunks)
      | None \<Rightarrow> if last_window text \<noteq> [] then Some (Inl (Exn [])) else None)"

text \<open>\<^verbatim>\<open>detect_scale\<close>: each scale regex, an optional \<^verbatim>\<open>in\<close> and an optional plural
  around a word, matched case-insensitively, finds a match exactly when the word occurs.\<close>

definition detect_scale :: "string \<Rightarrow> string" where
  "detect_scale text =
     (if contains (lower text) ''thousand'' then ''thousands''
      else if contains (lower text) ''million'' then ''millions''
      else if contains (lower text) ''billion'' then ''billions''
      else ''units'')"

subsection \<open>CSV\<close>

record csv_table =
  headers :: "string list"
  table_rows :: "string list list"
  table_row_count :: nat
  column_count :: nat
  is_financial :: bool

text \<open>\<^verbatim>\<open>CSVParser._extract_table_from_dataframe\<close>, without the \<^verbatim>\<open>financial_data\<close>
  payload of a financial table.\<close>

definition extract_table_from_dataframe :: "string dataframe \<Rightarrow> csv_table option" where
  "extract_table_from_dataframe df =
     (if empty df then None
      else Some \<lparr>headers = columns df, table_rows = df_rows df,
                 table_row_count = length (df_rows df), column_count = length (columns df),
                 is_financial = is_financial_dataframe df\<rparr>)"

record csv_metadata =
  encoding :: string
  md_row_count :: nat
  md_column_count :: nat
  md_columns :: "string list"
  structure_analysis :: analysis
  md_balance_sheet_items :: balance_sheet_items
  scale :: string

text \<open>
  What the libraries do with the file: the encoding \<^verbatim>\<open>_detect_encoding\<close> settles on
  (it catches every failure itself), and the outcome of each \<^verbatim>\<open>pd.read_csv\<close> attempt
  of \<^verbatim>\<open>_read_csv_with_fallbacks\<close>, in order.
\<close>

record csv_env =
  detected_encoding :: string
  read_attempts :: "(exn + string option dataframe) list"

text \<open>\<^verbatim>\<open>_read_csv_with_fallbacks\<close>: the first attempt that yields a non-empty frame of
  more than one column; a failed attempt is logged and skipped.\<close>

fun read_csv_with_fallbacks :: "(exn + string option dataframe) list \<Rightarrow> string option dataframe option" where
  "read_csv_with_fallbacks [] = None"
| "read_csv_with_fallbacks (Inl e # attempts) = read_csv_with_fallbacks attempts"
| "read_csv_with_fallbacks (Inr df # attempts) =
     (if \<not> empty df \<and> length (columns df) > 1 then Some df
      else read_csv_with_fallbacks attempts)"

definition csv_body :: "csv_env \<Rightarrow> (csv_table, csv_metadata) ParsingResult outcome" where
  "csv_body env =
     (case read_csv_with_fallbacks (read_attempts env) of
        None \<Rightarrow> Some (Inr (failed_result\<lparr>errors := [''Failed to read CSV file or file is empty'']\<rparr>))
      | Some df \<Rightarrow>
          if empty df
          then Some (Inr (failed_result\<lparr>errors := [''Failed to read CSV file or file is empty'']\<rparr>))
          else
            (let df_cleaned = clean_dataframe df;
                 csv_text = dataframe_to_text df_cleaned
             in case chunking csv_text of
                  None \<Rightarrow> None
                | Some (Inl e) \<Rightarrow> Some (Inl e)
                | Some (Inr text_chunks) \<Rightarrow>
                    Some (Inr
                      \<lparr>success = True,
                       chunks = make_chunks (Some ''csv_data'') text_chunks,
                       tables = (case extract_table_from_dataframe df_cleaned of
                                   None \<Rightarrow> [] | Some table_data \<Rightarrow> [table_data]),
                       figures = extract_financial_figures csv_text,
                       metadata = Some
                         \<lparr>encoding = detected_encoding env,
                          md_row_count = length (df_rows df_cleaned),
                          md_column_count = length (columns df_cleaned),
                          md_columns = columns df_cleaned,
                          structure_analysis = analyze_csv_structure df_cleaned,
                          md_balance_sheet_items = extract_balance_sheet_from_dataframe df_cleaned,
                          scale = detect_scale csv_text\<rparr>,
                       errors = [], warnings = []\<rparr>)))"

definition csv_parse :: "csv_env \<Rightarrow> (csv_table, csv_metadata) ParsingResult outcome" where
  "csv_parse env = guarded ''CSV parsing failed: '' (csv_body env)"

subsection \<open>PDF\<close>

text \<open>\<^verbatim>\<open>_clean_text\<close>: every run of whitespace becomes one space, characters outside the
  printable ASCII range (and newline, carriage return, tab) go, the ends are stripped.\<close>

fun collapse_whitespace :: "string \<Rightarrow> string" where
  "collapse_whitespace [] = []"
| "collapse_whitespace [c] = (if is_space c then '' '' else [c])"
| "collapse_whitespace (c # d # cs) =
     (if is_space c then
        (if is_space d then collapse_whitespace (d # cs) else CHR '' '' # collapse_whitespace (d # cs))
      else c # collapse_whitespace (d # cs))"

definition printable :: "char \<Rightarrow> bool" where
  "printable c = ((32 \<le> (of_char c :: nat) \<and> (of_char c :: nat) \<le> 126) \<or>
                  (of_char c :: nat) \<in> set [9, 10, 13])"

definition clean_text :: "string \<Rightarrow> string" where
  "clean_text text = strip (filter printable (collapse_whitespace text))"

text \<open>A table as pdfplumber returns it: rows of cells, \<open>None\<close> for an empty cell.\<close>

type_synonym raw_table = "string option list list"

record pdf_table =
  page :: nat
  table_index :: nat
  pdf_headers :: "string option list"
  pdf_rows :: "string option list list"
  pdf_row_count :: nat
  pdf_column_count :: nat
  pdf_is_financial :: bool

text \<open>\<^verbatim>\<open>' '.join(str(cell) for cell in row if cell)\<close>.\<close>

definition row_cells_text :: "string option list \<Rightarrow> string" where
  "row_cells_text row = join '' '' (List.map_filter (\<lambda>c. case c of None \<Rightarrow> None
       | Some s \<Rightarrow> if s = [] then None else Some s) row)"

text \<open>\<^verbatim>\<open>PDFParser._is_financial_table\<close>.\<close>

definition is_financial_table :: "string option list \<Rightarrow> string option list list \<Rightarrow> bool" where
  "is_financial_table hdrs rws =
     (if hdrs = [] \<or> rws = [] then False
      else
        (let hs = List.map_filter (\<lambda>h. case h of None \<Rightarrow> None
                     | Some s \<Rightarrow> if s = [] then None else Some (lower s)) hdrs;
             has_financial_headers =
               list_ex (any_in [''assets'', ''liabilities'', ''equity'', ''amount'', ''balance'',
                                ''total'', ''current'', ''long-term'', ''cash'', ''receivables'',
                                ''inventory'', ''debt'', ''capital'', ''earnings'']) hs;
             has_financial_data =
               list_ex (\<lambda>row. extract_financial_figures (row_cells_text row) \<noteq> []) (take 5 rws)
         in has_financial_headers \<or> has_financial_data))"

text \<open>The tables of one page, \<^verbatim>\<open>_extract_tables_from_pdf\<close>'s inner loop: a table needs
  a header and a data row.  The \<^verbatim>\<open>financial_data\<close> payload is left out.\<close>

definition page_tables :: "nat \<Rightarrow> raw_table list \<Rightarrow> pdf_table list" where
  "page_tables page_num tbls =
     List.map_filter
       (\<lambda>(table_num, table).
          if length table > 1
          then Some \<lparr>page = page_num + 1, table_index = table_num,
                      pdf_headers = hd table, pdf_rows = tl table,
                      pdf_row_count = length table - 1,
                      pdf_column_count = length (hd table),
                      pdf_is_financial = is_financial_table (hd table) (tl table)\<rparr>
          else None)
       (List.enumerate 0 tbls)"

text \<open>The page loop: a failure (of opening the file, or on a page) ends the loop and
  keeps the tables found so far.\<close>

fun extract_tables_from_pdf :: "nat \<Rightarrow> (exn + raw_table list) list \<Rightarrow> pdf_table list" where
  "extract_tables_from_pdf page_num [] = []"
| "extract_tables_from_pdf page_num (Inl e # pages) = []"
| "extract_tables_from_pdf page_num (Inr tbls # pages) =
     page_tables page_num tbls @ extract_tables_from_pdf (page_num + 1) pages"

text \<open>
  What the libraries make of the file: the page texts pdfplumber and PyPDF2 extract
  (the empty text for a page without text) or the failure they raise, the text OCR reads
  from each page or the failure it raises, the tables pdfplumber finds page by page, and
  the page counts the two libraries report.
\<close>

record pdf_env =
  pdfplumber_pages :: "exn + string list"
  pypdf2_pages :: "exn + string list"
  ocr_pages :: "exn + string list"
  pdfplumber_tables :: "(exn + raw_table list) list"
  pdfplumber_page_count :: "exn + nat"
  pypdf2_page_count :: "exn + nat"

text \<open>
  The imports at the head of pdf\_parser.py are one \<^verbatim>\<open>try\<close> block:
  \<^verbatim>\<open>import pdfplumber; import pypdf2; from PIL import Image; import pytesseract\<close>.
  The second import fails, the module's name being \<^verbatim>\<open>PyPDF2\<close>; the
  \<^verbatim>\<open>ImportError\<close> is caught and logged, and the names \<^verbatim>\<open>pypdf2\<close>,
  \<^verbatim>\<open>Image\<close> and \<^verbatim>\<open>pytesseract\<close> stay unbound.  A function that uses one of
  them raises \<^verbatim>\<open>NameError\<close> inside its own \<^verbatim>\<open>try\<close>.
\<close>

definition fallback_names_bound :: bool where
  "fallback_names_bound = False"

definition extract_with_pdfplumber :: "pdf_env \<Rightarrow> string" where
  "extract_with_pdfplumber env =
     (case pdfplumber_pages env of
        Inl e \<Rightarrow> []
      | Inr pages \<Rightarrow> join [CHR 0x0A] (filter (\<lambda>t. t \<noteq> []) pages))"

text \<open>\<^verbatim>\<open>_extract_with_pypdf2\<close>: the \<^verbatim>\<open>NameError\<close> of \<^verbatim>\<open>pypdf2.PdfReader\<close> is
  caught by the function's own handler, which returns the empty text.\<close>

definition extract_with_pypdf2 :: "pdf_env \<Rightarrow> string" where
  "extract_with_pypdf2 env =
     (if \<not> fallback_names_bound then []
      else (case pypdf2_pages env of
              Inl e \<Rightarrow> []
            | Inr pages \<Rightarrow> join [CHR 0x0A] (filter (\<lambda>t. t \<noteq> []) pages)))"

text \<open>\<^verbatim>\<open>_extract_with_ocr\<close>: likewise for \<^verbatim>\<open>pytesseract.image_to_string\<close>.\<close>

definition extract_with_ocr :: "pdf_env \<Rightarrow> string" where
  "extract_with_ocr env =
     (if \<not> fallback_names_bound then []
      else (case ocr_pages env of
              Inl e \<Rightarrow> []
            | Inr pages \<Rightarrow> join [CHR 0x0A] (filter (\<lambda>t. strip t \<noteq> []) pages)))"

definition get_page_count :: "pdf_env \<Rightarrow> nat" where
  "get_page_count env =
     (case pdfplumber_page_count env of
        Inr n \<Rightarrow> n
      | Inl e \<Rightarrow>
          (if \<not> fallback_names_bound then 0
           else (case pypdf2_page_count env of Inr n \<Rightarrow> n | Inl e' \<Rightarrow> 0)))"

text \<open>\<^verbatim>\<open>_determine_extraction_method\<close>: the body is the one \<^verbatim>\<open>return "pdfplumber"\<close>.\<close>

definition determine_extraction_method :: "pdf_env \<Rightarrow> string" where
  "determine_extraction_method env = ''pdfplumber''"

record pdf_metadata =
  page_count :: nat
  pdf_scale :: string
  extraction_method :: string

text \<open>\<^verbatim>\<open>not text_content or len(text_content.strip()) < 100\<close>.\<close>

definition too_short :: "string \<Rightarrow> bool" where
  "too_short text_content = (text_content = [] \<or> length (strip text_content) < 100)"

text \<open>The text the fallback chain of \<^verbatim>\<open>PDFParser.parse\<close> ends with, and whether the
  OCR warning was attached.\<close>

definition pdf_text_content :: "pdf_env \<Rightarrow> string \<times> bool" where
  "pdf_text_content env =
     (let t1 = extract_with_pdfplumber env;
          t2 = (if too_short t1 then extract_with_pypdf2 env else t1)
      in if too_short t2
         then (let t3 = extract_with_ocr env in (t3, t3 \<noteq> []))
         else (t2, False))"

text \<open>The body of \<^verbatim>\<open>PDFParser.parse\<close>.  Of the metadata, the dates, the line items
  found in the text and the document structure are left out; computing them raises
  nothing.\<close>

definition pdf_body :: "pdf_env \<Rightarrow> (pdf_table, pdf_metadata) ParsingResult outcome" where
  "pdf_body env =
     (case pdf_text_content env of
        (text_content, used_ocr) \<Rightarrow>
          (let ws0 = (if used_ocr then [''Text extracted using OCR - accuracy may be lower''] else [])
           in if text_content = []
              then Some (Inr (failed_result\<lparr>errors := [''Failed to extract text from PDF''],
                                            warnings := ws0\<rparr>))
              else
                (let cleaned_text = clean_text text_content
                 in case chunking cleaned_text of
                      None \<Rightarrow> None
                    | Some (Inl e) \<Rightarrow> Some (Inl e)
                    | Some (Inr text_chunks) \<Rightarrow>
                        Some (Inr
                          \<lparr>success = True,
                           chunks = make_chunks None text_chunks,
                           tables = extract_tables_from_pdf 0 (pdfplumber_tables env),
                           figures = extract_financial_figures cleaned_text,
                           metadata = Some
                             \<lparr>page_count = get_page_count env,
                              pdf_scale = detect_scale cleaned_text,
                              extraction_method = determine_extraction_method env\<rparr>,
                           errors = [], warnings = ws0\<rparr>))))"

definition pdf_parse :: "pdf_env \<Rightarrow> (pdf_table, pdf_metadata) ParsingResult outcome" where
  "pdf_parse env = guarded ''PDF parsing failed: '' (pdf_body env)"

subsection \<open>Excel\<close>

text \<open>\<^verbatim>\<open>ExcelParser._clean_dataframe\<close>: as for CSV, but rows of empty texts stay.\<close>

definition excel_clean_dataframe :: "string option dataframe \<Rightarrow> string dataframe" where
  "excel_clean_dataframe df =
     (let rows1 = filter (\<lambda>r. \<not> list_all (\<lambda>c. c = None) r) (df_rows df);
          keep = filter (\<lambda>j. list_ex (\<lambda>r. cell None r j \<noteq> None) rows1) [0..<length (columns df)]
      in \<lparr>columns = map (\<lambda>j. columns df ! j) keep,
          df_rows = map (\<lambda>r. map (\<lambda>j. case cell None r j of None \<Rightarrow> [] | Some s \<Rightarrow> s) keep) rows1\<rparr>)"

text \<open>\<^verbatim>\<open>ExcelParser._dataframe_to_text\<close>: tab-separated.\<close>

definition excel_dataframe_to_text :: "string dataframe \<Rightarrow> string" where
  "excel_dataframe_to_text df =
     join [CHR 0x0A]
       ((if columns df \<noteq> [] then [join [CHR 0x09] (columns df)] else []) @
        filter (\<lambda>row_text. strip row_text \<noteq> []) (map (join [CHR 0x09]) (df_rows df)))"

record excel_table =
  sheet_name :: string
  xl_headers :: "string list"
  xl_rows :: "string list list"
  xl_row_count :: nat
  xl_column_count :: nat

text \<open>\<^verbatim>\<open>ExcelParser._extract_table_from_dataframe\<close>, without the \<^verbatim>\<open>is_financial\<close> flag
  (it reads the cells as numbers) and the \<^verbatim>\<open>financial_data\<close> payload.\<close>

definition excel_extract_table :: "string dataframe \<Rightarrow> string \<Rightarrow> excel_table option" where
  "excel_extract_table df sheet =
     (if empty df then None
      else Some \<lparr>sheet_name = sheet, xl_headers = columns df, xl_rows = df_rows df,
                 xl_row_count = length (df_rows df), xl_column_count = length (columns df)\<rparr>)"

record sheet_result =
  sheet_chunks :: "DocumentChunk list"
  sheet_tables :: "excel_table list"
  sheet_figures :: "figure list"

text \<open>\<^verbatim>\<open>ExcelParser._process_sheet\<close>: the chunks of a sheet are numbered from 0.\<close>

definition process_sheet :: "string option dataframe \<Rightarrow> string \<Rightarrow> sheet_result outcome" where
  "process_sheet df sheet =
     (if empty df then Some (Inr \<lparr>sheet_chunks = [], sheet_tables = [], sheet_figures = []\<rparr>)
      else
        (let df_cleaned = excel_clean_dataframe df;
             sheet_text = excel_dataframe_to_text df_cleaned
         in case chunking sheet_text of
              None \<Rightarrow> None
            | Some (Inl e) \<Rightarrow> Some (Inl e)
            | Some (Inr text_chunks) \<Rightarrow>
                Some (Inr
                  \<lparr>sheet_chunks = make_chunks (Some (''sheet_'' @ sheet)) text_chunks,
                   sheet_tables = (case excel_extract_table df_cleaned sheet of
                                     None \<Rightarrow> [] | Some table_data \<Rightarrow> [table_data]),
                   sheet_figures = extract_financial_figures sheet_text\<rparr>)))"

text \<open>The \<^verbatim>\<open>for sheet_name, df in all_sheets.items()\<close> loop of \<^verbatim>\<open>ExcelParser.parse\<close>,
  extending the three accumulators.\<close>

fun process_sheets :: "(string \<times> string option dataframe) list \<Rightarrow> sheet_result \<Rightarrow> sheet_result outcome" where
  "process_sheets [] acc = Some (Inr acc)"
| "process_sheets ((sheet, df) # rest) acc =
     (case process_sheet df sheet of
        None \<Rightarrow> None
      | Some (Inl e) \<Rightarrow> Some (Inl e)
      | Some (Inr r) \<Rightarrow>
          process_sheets rest
            \<lparr>sheet_chunks = sheet_chunks acc @ sheet_chunks r,
             sheet_tables = sheet_tables acc @ sheet_tables r,
             sheet_figures = sheet_figures acc @ sheet_figures r\<rparr>)"

record excel_metadata =
  sheet_count :: nat
  sheet_names :: "string list"

text \<open>
  What pandas does with the workbook: the sheets, in order, as the openpyxl engine and as
  the xlrd engine read them, or the failure each raises.
\<close>

record excel_env =
  openpyxl_sheets :: "exn + (string \<times> string option dataframe) list"
  xlrd_sheets :: "exn + (string \<times> string option dataframe) list"

text \<open>The body of \<^verbatim>\<open>ExcelParser.parse\<close>.  Of the metadata, the balance-sheet candidate
  with its confidence, the merged line items and the file suffix are left out; computing
  them raises nothing.\<close>

definition excel_sheets_body ::
  "(string \<times> string option dataframe) list \<Rightarrow> (excel_table, excel_metadata) ParsingResult outcome" where
  "excel_sheets_body all_sheets =
     (if all_sheets = []
      then Some (Inr (failed_result\<lparr>errors := [''No sheets found in Excel file'']\<rparr>))
      else
        (case process_sheets all_sheets \<lparr>sheet_chunks = [], sheet_tables = [], sheet_figures = []\<rparr> of
           None \<Rightarrow> None
         | Some (Inl e) \<Rightarrow> Some (Inl e)
         | Some (Inr acc) \<Rightarrow>
             Some (Inr
               \<lparr>success = True, chunks = sheet_chunks acc, tables = sheet_tables acc,
                figures = sheet_figures acc,
                metadata = Some \<lparr>sheet_count = length all_sheets,
                                  sheet_names = map fst all_sheets\<rparr>,
                errors = [], warnings = []\<rparr>)))"

definition excel_body :: "excel_env \<Rightarrow> (excel_table, excel_metadata) ParsingResult outcome" where
  "excel_body env =
     (case openpyxl_sheets env of
        Inr all_sheets \<Rightarrow> excel_sheets_body all_sheets
      | Inl e \<Rightarrow>
          (case xlrd_sheets env of
             Inr all_sheets \<Rightarrow> excel_sheets_body all_sheets
           | Inl (Exn msg) \<Rightarrow>
               Some (Inr (failed_result\<lparr>errors := [''Failed to read Excel file: '' @ msg]\<rparr>))))"

definition excel_parse :: "excel_env \<Rightarrow> (excel_table, excel_metadata) ParsingResult outcome" where
  "excel_parse env = guarded ''Excel parsing failed: '' (excel_body env)"

subsection \<open>XML and XBRL\<close>

datatype element =
  Element (tag: string) (attrib: "(string \<times> string) list") (el_text: "string option")
    (children: "element list")

text \<open>\<^verbatim>\<open>XMLParser._is_xbrl_document\<close>.\<close>

definition is_xbrl_document :: "element \<Rightarrow> bool" where
  "is_xbrl_document root_el =
     (contains (lower (tag root_el)) ''xbrl'' \<or>
      list_ex (\<lambda>(a, v). contains (lower a) ''xbrl'' \<or> contains (lower v) ''xbrl'') (attrib root_el) \<or>
      list_ex (\<lambda>child. any_in [''context'', ''unit'', ''schemaref''] (lower (tag child)))
        (children root_el))"

text \<open>\<^verbatim>\<open>XMLParser._xml_to_text\<close>: the lines of an element at a nesting level.\<close>

fun element_to_text :: "element \<Rightarrow> nat \<Rightarrow> string list" where
  "element_to_text (Element tg atts txt chs) level =
     (let indent = concat (replicate level ''  '') in
      [indent @ tg] @
      map (\<lambda>(a, v). indent @ ''  @'' @ a @ '': '' @ v) atts @
      (case txt of
         None \<Rightarrow> []
       | Some t \<Rightarrow> if strip t \<noteq> [] then [indent @ ''  '' @ strip t] else []) @
      concat (map (\<lambda>child. element_to_text child (level + 1)) chs))"

definition xml_to_text :: "element \<Rightarrow> string" where
  "xml_to_text root_el = join [CHR 0x0A] (element_to_text root_el 0)"

record fact =
  fact_name :: string
  fact_value :: "string option"
  context_ref :: "string option"
  unit_ref :: "string option"

record xml_table =
  xml_headers :: "string list"
  xml_rows :: "string option list list"
  xml_row_count :: nat
  xml_column_count :: nat

text \<open>\<^verbatim>\<open>XMLParser._create_balance_sheet_table\<close>, without the \<^verbatim>\<open>financial_data\<close>
  payload: one row per fact, assets first, then liabilities, then equity.\<close>

definition create_balance_sheet_table :: "fact list \<Rightarrow> fact list \<Rightarrow> fact list \<Rightarrow> xml_table" where
  "create_balance_sheet_table as ls es =
     (let rws = map (\<lambda>f. [Some (fact_name f), fact_value f, context_ref f, unit_ref f]) (as @ ls @ es)
      in \<lparr>xml_headers = [''Line Item'', ''Amount'', ''Context'', ''Unit''], xml_rows = rws,
          xml_row_count = length rws, xml_column_count = 4\<rparr>)"

record xml_metadata =
  is_xbrl :: bool
  document_type :: string
  namespaces :: "(string \<times> string) list"
  xml_scale :: string

text \<open>
  What ElementTree does with the file: the tree \<^verbatim>\<open>ET.parse\<close> returns or the failure
  it raises, and, for an XBRL document, the facts \<^verbatim>\<open>_extract_balance_sheet_facts\<close>
  collects through ElementTree's path search (three lists: assets, liabilities, equity)
  or the failure that search raises.
\<close>

record xml_env =
  et_parse :: "exn + element"
  xbrl_facts :: "exn + fact list \<times> fact list \<times> fact list"

text \<open>The \<^verbatim>\<open>tables\<close> entry of \<^verbatim>\<open>_parse_xbrl\<close> (one table, always) and of
  \<^verbatim>\<open>_parse_regular_xml\<close> (none).  The other entries of the parsed data (line
  items, entity information, reporting period) are left out of the metadata.\<close>

definition parsed_tables :: "xml_env \<Rightarrow> bool \<Rightarrow> exn + xml_table list" where
  "parsed_tables env xbrl =
     (if xbrl
      then (case xbrl_facts env of
              Inl e \<Rightarrow> Inl e
            | Inr (as, ls, es) \<Rightarrow> Inr [create_balance_sheet_table as ls es])
      else Inr [])"

definition xml_body :: "xml_env \<Rightarrow> (xml_table, xml_metadata) ParsingResult outcome" where
  "xml_body env =
     (case et_parse env of
        Inl e \<Rightarrow> Some (Inl e)
      | Inr root_el \<Rightarrow>
          (let xbrl = is_xbrl_document root_el in
           case parsed_tables env xbrl of
             Inl e \<Rightarrow> Some (Inl e)
           | Inr tbls \<Rightarrow>
               (let xml_text = xml_to_text root_el
                in case chunking xml_text of
                     None \<Rightarrow> None
                   | Some (Inl e) \<Rightarrow> Some (Inl e)
                   | Some (Inr text_chunks) \<Rightarrow>
                       Some (Inr
                         \<lparr>success = True,
                          chunks = make_chunks (Some (if \<not> xbrl then ''xml_data'' else ''xbrl_data''))
                                     text_chunks,
                          tables = tbls,
                          figures = extract_financial_figures xml_text,
                          metadata = Some
                            \<lparr>is_xbrl = xbrl,
                             document_type = (if xbrl then ''xbrl'' else ''xml''),
                             namespaces = attrib root_el,
                             xml_scale = detect_scale xml_text\<rparr>,
                          errors = [], warnings = []\<rparr>))))"

definition xml_parse :: "xml_env \<Rightarrow> (xml_table, xml_metadata) ParsingResult outcome" where
  "xml_parse env = guarded ''XML/XBRL parsing failed: '' (xml_body env)"

subsection \<open>Concrete files\<close>

text \<open>A workbook with one sheet that has no cells.\<close>

definition empty_workbook :: excel_env where
  "empty_workbook =
     \<lparr>openpyxl_sheets = Inr [(''Sheet1'', \<lparr>columns = [], df_rows = []\<rparr>)],
      xlrd_sheets = Inl (Exn ''not an xls file'')\<rparr>"

text \<open>A workbook with two small sheets.\<close>

definition two_sheet_workbook :: excel_env where
  "two_sheet_workbook =
     \<lparr>openpyxl_sheets =
        Inr [(''Assets'', \<lparr>columns = [''Item'', ''2023''],
                             df_rows = [[Some ''Cash'', Some ''1000'']]\<rparr>),
             (''Liabilities'', \<lparr>columns = [''Item'', ''2023''],
                                  df_rows = [[Some ''Debt'', Some ''500'']]\<rparr>)],
      xlrd_sheets = Inl (Exn ''not an xls file'')\<rparr>"

definition statement_text :: string where
  "statement_text =
     ''Balance sheet: cash 1000, receivables 2000, inventory 3000, payables 500, debt 700, equity 4800, total 6000.''"



text \<open>A PDF from which pdfplumber extracts the statement.\<close>

definition pdfplumber_pdf :: pdf_env where
  "pdfplumber_pdf =
     \<lparr>pdfplumber_pages = Inr [statement_text], pypdf2_pages = Inr [statement_text],
      ocr_pages = Inr [], pdfplumber_tables = [Inr []], pdfplumber_page_count = Inr 1,
      pypdf2_page_count = Inr 1\<rparr>"

text \<open>A PDF whose text, as pdfplumber extracts it, is 100 times the letter e with an
  acute accent (code point 233).\<close>

definition accented_pdf :: pdf_env where
  "accented_pdf =
     \<lparr>pdfplumber_pages = Inr [replicate 100 (CHR 0xE9)], pypdf2_pages = Inr [],
      ocr_pages = Inr [], pdfplumber_tables = [Inr []], pdfplumber_page_count = Inr 1,
      pypdf2_page_count = Inr 1\<rparr>"







text \<open>A file that is not well-formed XML.\<close>

definition malformed_xml :: xml_env where
  "malformed_xml =
     \<lparr>et_parse = Inl (Exn ''no element found: line 1, column 0''), xbrl_facts = Inr ([], [], [])\<rparr>"

section \<open>Verified properties\<close>

lemmas text_eval = is_digit_def is_space_def lower_def lower_char_def upper_def upper_char_def
  lstrip_def rstrip_def strip_def char_of_def bit_Suc_0_iff Let_def

lemmas figure_eval = extract_financial_figures_def currency_patterns_def figures_of_pattern_def
  figure_of_match_def match_at_def number_at_def is_num_char_def Decimal_def remove_commas_def
  digits_val_def get_context_def text_eval

lemma Decimal_nonneg: "Decimal s = Some a \<Longrightarrow> 0 \<le> a"
  by (auto simp: Decimal_def Let_def split: list.splits if_splits)

lemma figure_of_match_Some:
  "figure_of_match text cur m = Some f \<Longrightarrow>
     raw_text f = m \<and> Decimal (remove_commas m) = Some (amount f)"
  by (auto simp: figure_of_match_def split: option.splits)

lemma in_map_filter:
  "y \<in> set (List.map_filter f xs) \<longleftrightarrow> (\<exists>x \<in> set xs. f x = Some y)"
  by (induction xs) (auto split: option.splits)

lemma raw_text_map_filter:
  "map raw_text (List.map_filter (figure_of_match text cur) ms) =
     filter (\<lambda>m. Decimal (remove_commas m) \<noteq> None) ms"
proof (induction ms)
  case Nil
  show ?case by simp
next
  case (Cons m ms)
  show ?case
  proof (cases "Decimal (remove_commas m)")
    case None
    then show ?thesis using Cons by (simp add: figure_of_match_def)
  next
    case (Some a)
    then show ?thesis using Cons by (simp add: figure_of_match_def)
  qed
qed

lemma in_figures_of_pattern:
  "f \<in> set (figures_of_pattern text p) \<Longrightarrow>
     raw_text f \<in> set (findall (snd p) text) \<and> Decimal (remove_commas (raw_text f)) = Some (amount f)"
  by (auto simp: figures_of_pattern_def in_map_filter dest!: figure_of_match_Some)

lemma in_extract_financial_figures:
  "f \<in> set (extract_financial_figures text) \<Longrightarrow>
     \<exists>p \<in> set currency_patterns. f \<in> set (figures_of_pattern text p)"
  by (auto simp: extract_financial_figures_def)

lemma number_at_chars:
  "number_at s = Some (m, r) \<Longrightarrow> list_all is_amount_char m"
proof -
  assume a: "number_at s = Some (m, r)"
  have "list_all is_num_char (takeWhile is_num_char s)"
    by (simp add: list_all_iff) (meson set_takeWhileD)
  hence "list_all is_amount_char (takeWhile is_num_char s)"
    by (auto simp: list_all_iff is_amount_char_def is_num_char_def)
  with a show ?thesis
    by (auto simp: number_at_def Let_def is_amount_char_def split: if_splits list.splits)
qed

lemma match_at_chars:
  "match_at symb s = Some (m, r) \<Longrightarrow> list_all is_amount_char m"
  by (auto simp: match_at_def split: option.splits list.splits if_splits dest: number_at_chars)

lemma findall_chars:
  "m \<in> set (findall symb s) \<Longrightarrow> list_all is_amount_char m"
  by (induction symb s rule: findall.induct) (auto split: option.splits dest: match_at_chars)

text \<open>
  Claim C6.  On \<^verbatim>\<open>"$1,234.56"\<close> the extractor returns a non-empty list whose figures
  all have amount 1234.56 and currency USD (the dollar pattern and the generic pattern
  both match); on \<^verbatim>\<open>"abc"\<close> it returns the empty list.  For every text and every
  pattern, the figures kept are exactly the matches whose comma-stripped numeral parses
  as a decimal, in order: a match that does not parse is skipped and the scan goes on,
  and each kept figure's amount is that parse.
\<close>

theorem extract_financial_figures_examples:
  "extract_financial_figures ''$1,234.56'' \<noteq> [] \<and>
   (\<forall>f \<in> set (extract_financial_figures ''$1,234.56'').
      amount f = 123456 / 100 \<and> currency f = ''USD'') \<and>
   extract_financial_figures ''abc'' = [] \<and>
   (\<forall>text p. map raw_text (figures_of_pattern text p) =
      filter (\<lambda>m. Decimal (remove_commas m) \<noteq> None) (findall (snd p) text)) \<and>
   (\<forall>text. \<forall>f \<in> set (extract_financial_figures text).
      Decimal (remove_commas (raw_text f)) = Some (amount f))"
proof -
  have e: "extract_financial_figures ''$1,234.56'' =
      [\<lparr>amount = 30864 / 25, currency = ''USD'', raw_text = ''1,234.56'', context_str = ''$1,234.56''\<rparr>,
       \<lparr>amount = 30864 / 25, currency = ''USD'', raw_text = ''1,234.56'', context_str = ''$1,234.56''\<rparr>]"
    by (simp add: figure_eval)
  have a: "extract_financial_figures ''abc'' = []" by (simp add: figure_eval)
  have r: "\<forall>text p. map raw_text (figures_of_pattern text p) =
      filter (\<lambda>m. Decimal (remove_commas m) \<noteq> None) (findall (snd p) text)"
    by (simp add: figures_of_pattern_def raw_text_map_filter)
  have d: "\<forall>text. \<forall>f \<in> set (extract_financial_figures text).
      Decimal (remove_commas (raw_text f)) = Some (amount f)"
    by (meson in_extract_financial_figures in_figures_of_pattern)
  show ?thesis using a r d unfolding e by simp
qed

theorem extract_financial_figures_examples_witness:
  "hd (extract_financial_figures ''$1,234.56'') \<in> set (extract_financial_figures ''$1,234.56'') \<and>
   amount (hd (extract_financial_figures ''$1,234.56'')) = 123456 / 100 \<and>
   currency (hd (extract_financial_figures ''$1,234.56'')) = ''USD'' \<and>
   Decimal (remove_commas (raw_text (hd (extract_financial_figures ''$1,234.56'')))) =
     Some (amount (hd (extract_financial_figures ''$1,234.56'')))"
proof -
  have ne: "extract_financial_figures ''$1,234.56'' \<noteq> []"
    using extract_financial_figures_examples by blast
  hence m: "hd (extract_financial_figures ''$1,234.56'') \<in> set (extract_financial_figures ''$1,234.56'')"
    by (rule hd_in_set)
  show ?thesis using m extract_financial_figures_examples by blast
qed

text \<open>
  Claim C10.  Every figure the extractor returns has a nonnegative amount, and its raw
  text consists of digits, commas and the decimal point only: a minus sign or accounting
  parentheses are never part of a match, so \<^verbatim>\<open>-500\<close>, \<^verbatim>\<open>(1,200)\<close> and
  \<^verbatim>\<open>-$75.50\<close> come out as the positive amounts 500, 1200 and 75.50.
\<close>

theorem extract_financial_figures_nonneg:
  "(\<forall>text. \<forall>f \<in> set (extract_financial_figures text).
      0 \<le> amount f \<and> list_all is_amount_char (raw_text f)) \<and>
   map amount (extract_financial_figures ''-500'') = [500] \<and>
   map amount (extract_financial_figures ''(1,200)'') = [1200] \<and>
   map amount (extract_financial_figures ''-$75.50'') = [151 / 2, 151 / 2]"
proof -
  have g: "\<forall>text. \<forall>f \<in> set (extract_financial_figures text).
      0 \<le> amount f \<and> list_all is_amount_char (raw_text f)"
    by (meson in_extract_financial_figures in_figures_of_pattern Decimal_nonneg findall_chars)
  have a: "map amount (extract_financial_figures ''-500'') = [500]" by (simp add: figure_eval)
  have b: "map amount (extract_financial_figures ''(1,200)'') = [1200]" by (simp add: figure_eval)
  have c: "map amount (extract_financial_figures ''-$75.50'') = [151 / 2, 151 / 2]" by (simp add: figure_eval)
  show ?thesis using g a b c by simp
qed

theorem extract_financial_figures_nonneg_witness:
  "hd (extract_financial_figures ''-500'') \<in> set (extract_financial_figures ''-500'') \<and>
   0 \<le> amount (hd (extract_financial_figures ''-500'')) \<and>
   list_all is_amount_char (raw_text (hd (extract_financial_figures ''-500'')))"
proof -
  have "map amount (extract_financial_figures ''-500'') = [500]"
    using extract_financial_figures_nonneg by blast
  hence "extract_financial_figures ''-500'' \<noteq> []" by auto
  hence m: "hd (extract_financial_figures ''-500'') \<in> set (extract_financial_figures ''-500'')"
    by (rule hd_in_set)
  show ?thesis using m extract_financial_figures_nonneg by blast
qed


lemma maximal_runs_split:
  "maximal_runs P xs =
     (if takeWhile P xs = [] then [] else [takeWhile P xs]) @ maximal_runs P (dropWhile P xs)"
  by (cases xs) auto

lemma detect_loop_runs:
  "detect_loop lines cur tabs =
     tabs @
     (let r = cur @ map row_of_line (takeWhile qualifies lines) in
      if 3 \<le> length r then [table_of_rows r] else []) @
     map (\<lambda>run. table_of_rows (map row_of_line run))
       (filter (\<lambda>run. 3 \<le> length run) (maximal_runs qualifies (dropWhile qualifies lines)))"
proof (induction lines arbitrary: cur tabs)
  case Nil
  show ?case by (simp add: flush_table_def)
next
  case (Cons line lines)
  show ?case
  proof (cases "qualifies line")
    case True
    then show ?thesis
      using Cons [of "cur @ [row_of_line line]" tabs]
      by (simp add: qualifies_def row_of_line_def Let_def)
  next
    case False
    have m: "maximal_runs qualifies (dropWhile qualifies (line # lines)) =
        (if takeWhile qualifies lines = [] then [] else [takeWhile qualifies lines]) @
        maximal_runs qualifies (dropWhile qualifies lines)"
      using False maximal_runs_split [of qualifies lines] by simp
    have t: "takeWhile qualifies (line # lines) = []"
      using False by simp
    have d: "detect_loop (line # lines) cur tabs = detect_loop lines [] (flush_table cur tabs)"
      using False by (simp add: qualifies_def Let_def)
    show ?thesis
      unfolding d Cons [of "[]" "flush_table cur tabs"] t m
      by (simp add: flush_table_def Let_def)
  qed
qed

lemma detect_table_structure_runs0:
  "detect_table_structure text = spec_tables text"
  unfolding detect_table_structure_def spec_tables_def detect_loop_runs [of "split_lines text" "[]" "[]"]
  by (subst (2) maximal_runs_split) (simp add: Let_def)

lemma maximal_runs_sound:
  "r \<in> set (maximal_runs P xs) \<Longrightarrow>
     \<exists>as bs. xs = as @ r @ bs \<and> r \<noteq> [] \<and> list_all P r \<and>
       (as = [] \<or> \<not> P (last as)) \<and> (bs = [] \<or> \<not> P (hd bs))"
proof (induction P xs rule: maximal_runs.induct)
  case (1 P)
  then show ?case by simp
next
  case (2 P x xs)
  show ?case
  proof (cases "P x")
    case False
    with 2 obtain as bs where "xs = as @ r @ bs" "r \<noteq> []" "list_all P r"
      "as = [] \<or> \<not> P (last as)" "bs = [] \<or> \<not> P (hd bs)" by auto
    with False have "x # xs = (x # as) @ r @ bs \<and> r \<noteq> [] \<and> list_all P r \<and>
       (x # as = [] \<or> \<not> P (last (x # as))) \<and> (bs = [] \<or> \<not> P (hd bs))" by auto
    then show ?thesis by blast
  next
    case True
    show ?thesis
    proof (cases "r = x # takeWhile P xs")
      case True
      have "x # xs = [] @ r @ dropWhile P xs" using True by simp
      moreover have "list_all P r" using True \<open>P x\<close>
        by (auto simp: list_all_iff dest: set_takeWhileD)
      moreover have "dropWhile P xs = [] \<or> \<not> P (hd (dropWhile P xs))"
        by (metis hd_dropWhile)
      ultimately show ?thesis using True by blast
    next
      case False
      with 2 \<open>P x\<close> obtain as bs where a: "dropWhile P xs = as @ r @ bs" "r \<noteq> []" "list_all P r"
        "as = [] \<or> \<not> P (last as)" "bs = [] \<or> \<not> P (hd bs)" by auto
      have "as \<noteq> []"
      proof
        assume "as = []"
        with a have "dropWhile P xs \<noteq> [] \<and> P (hd (dropWhile P xs))"
          by (cases r) (auto simp: list_all_iff)
        then show False by (metis hd_dropWhile)
      qed
      with a have l: "\<not> P (last ((x # takeWhile P xs) @ as))" by simp
      have "x # xs = ((x # takeWhile P xs) @ as) @ r @ bs"
        using a(1) by (metis append_Cons append_assoc takeWhile_dropWhile_id)
      with a l show ?thesis by blast
    qed
  qed
qed

lemma maximal_runs_append:
  "as = [] \<or> \<not> P (last as) \<Longrightarrow>
     maximal_runs P (as @ ys) = maximal_runs P as @ maximal_runs P ys"
proof (induction P as rule: maximal_runs.induct)
  case (1 P)
  show ?case by simp
next
  case (2 P x xs)
  show ?case
  proof (cases "P x")
    case False
    with 2 show ?thesis by (cases xs) auto
  next
    case True
    with 2(3) have ne: "xs \<noteq> []" and nl: "\<not> P (last xs)"
      by (auto split: if_splits)
    hence ex: "\<exists>z \<in> set xs. \<not> P z" using last_in_set by blast
    have t: "takeWhile P (xs @ ys) = takeWhile P xs"
      using ex by (auto simp: takeWhile_append1)
    have d: "dropWhile P (xs @ ys) = dropWhile P xs @ ys"
      using ex by (auto simp: dropWhile_append1)
    have dn: "dropWhile P xs \<noteq> []" using ex by (simp add: dropWhile_eq_Nil_conv)
    hence "last (dropWhile P xs) = last xs"
      by (metis last_appendR takeWhile_dropWhile_id)
    with nl dn have "dropWhile P xs = [] \<or> \<not> P (last (dropWhile P xs))" by simp
    from 2(1) [OF True this] True t d show ?thesis by simp
  qed
qed

lemma maximal_runs_complete:
  assumes "r \<noteq> []" "list_all P r" "as = [] \<or> \<not> P (last as)" "bs = [] \<or> \<not> P (hd bs)"
  shows "r \<in> set (maximal_runs P (as @ r @ bs))"
proof -
  obtain x r' where r: "r = x # r'" using assms(1) by (cases r) auto
  have all: "\<forall>z \<in> set r'. P z" and px: "P x" using assms(2) r by (auto simp: list_all_iff)
  have "takeWhile P (r' @ bs) = r'"
  proof (cases bs)
    case Nil
    then show ?thesis using all by simp
  next
    case (Cons b bs')
    with assms(4) have "\<not> P b" by simp
    then show ?thesis using all Cons by simp
  qed
  hence "maximal_runs P (r @ bs) = r # maximal_runs P (dropWhile P (r' @ bs))"
    using r px by simp
  thus ?thesis using assms(3) maximal_runs_append [of as P "r @ bs"] by simp
qed

lemma split_lines_no_newline: "CHR 0x0A \<notin> set l \<Longrightarrow> split_lines l = [l]"
  by (induction l) auto

lemma split_lines_append:
  "CHR 0x0A \<notin> set l \<Longrightarrow> split_lines (l @ CHR 0x0A # rest) = l # split_lines rest"
  by (induction l) auto

lemma detect_three_lines:
  assumes "qualifies l1" "qualifies l2" "qualifies l3" "CHR 0x0A \<notin> set (l1 @ l2 @ l3)"
  shows "detect_table_structure (l1 @ CHR 0x0A # l2 @ CHR 0x0A # l3) =
           [table_of_rows (map row_of_line [l1, l2, l3])]"
proof -
  have "split_lines (l1 @ CHR 0x0A # l2 @ CHR 0x0A # l3) = [l1, l2, l3]"
    using assms(4) by (simp add: split_lines_append split_lines_no_newline)
  thus ?thesis using assms(1-3)
    by (simp add: detect_table_structure_runs0 spec_tables_def)
qed

lemma detect_two_lines:
  assumes "CHR 0x0A \<notin> set (l1 @ l2)"
  shows "detect_table_structure (l1 @ CHR 0x0A # l2) = []"
proof -
  have "split_lines (l1 @ CHR 0x0A # l2) = [l1, l2]"
    using assms by (simp add: split_lines_append split_lines_no_newline)
  thus ?thesis
    by (simp add: detect_table_structure_runs0 spec_tables_def)
qed

text \<open>
  Claim C8.  The detector's loop returns exactly one table for each maximal run of
  consecutive qualifying lines (lines with at least two recognized figures) that is at
  least three lines long, in order, with \<open>row_count\<close> the length of the run
  (\<open>maximal_runs_sound\<close> and \<open>maximal_runs_complete\<close> say what the runs are).  Three
  consecutive qualifying lines give one table of \<open>row_count\<close> 3; two lines give none.
\<close>

theorem detect_table_structure_runs:
  "(\<forall>text. detect_table_structure text =
      map (\<lambda>run. table_of_rows (map row_of_line run))
        (filter (\<lambda>run. 3 \<le> length run) (maximal_runs qualifies (split_lines text)))) \<and>
   (\<forall>text. \<forall>t \<in> set (detect_table_structure text).
      row_count t = length (rows t) \<and> 3 \<le> row_count t) \<and>
   (\<forall>l1 l2 l3. qualifies l1 \<and> qualifies l2 \<and> qualifies l3 \<and>
      CHR 0x0A \<notin> set (l1 @ l2 @ l3) \<longrightarrow>
      map row_count (detect_table_structure (l1 @ CHR 0x0A # l2 @ CHR 0x0A # l3)) = [3]) \<and>
   (\<forall>l1 l2. CHR 0x0A \<notin> set (l1 @ l2) \<longrightarrow>
      detect_table_structure (l1 @ CHR 0x0A # l2) = [])"
proof -
  have a: "\<forall>text. detect_table_structure text =
      map (\<lambda>run. table_of_rows (map row_of_line run))
        (filter (\<lambda>run. 3 \<le> length run) (maximal_runs qualifies (split_lines text)))"
    using detect_table_structure_runs0 by (simp add: spec_tables_def)
  have b: "\<forall>text. \<forall>t \<in> set (detect_table_structure text).
      row_count t = length (rows t) \<and> 3 \<le> row_count t"
    unfolding detect_table_structure_runs0 spec_tables_def
    by (auto simp: table_of_rows_def)
  have c: "\<forall>l1 l2 l3. qualifies l1 \<and> qualifies l2 \<and> qualifies l3 \<and>
      CHR 0x0A \<notin> set (l1 @ l2 @ l3) \<longrightarrow>
      map row_count (detect_table_structure (l1 @ CHR 0x0A # l2 @ CHR 0x0A # l3)) = [3]"
    by (simp add: detect_three_lines table_of_rows_def)
  have d: "\<forall>l1 l2. CHR 0x0A \<notin> set (l1 @ l2) \<longrightarrow>
      detect_table_structure (l1 @ CHR 0x0A # l2) = []"
    using detect_two_lines by blast
  show ?thesis using a b c d by blast
qed

theorem detect_table_structure_runs_witness:
  "map row_count (detect_table_structure (''1 2'' @ CHR 0x0A # ''3 4'' @ CHR 0x0A # ''5 6'')) = [3] \<and>
   detect_table_structure (''1 2'' @ CHR 0x0A # ''3 4'') = []"
proof -
  have q: "qualifies ''1 2''" "qualifies ''3 4''" "qualifies ''5 6''"
    by (simp_all add: qualifies_def figure_eval)
  have n: "CHR 0x0A \<notin> set (''1 2'' @ ''3 4'' @ ''5 6'')" "CHR 0x0A \<notin> set (''1 2'' @ ''3 4'')"
    by simp_all
  show ?thesis using q n detect_table_structure_runs by blast
qed


lemma rfind_char_bound: "rfind_char s c i j < int (length s)"
  unfolding rfind_char_def Let_def
proof (cases "filter (\<lambda>k. s ! k = c) (rev [slice_index i (length s)..<slice_index j (length s)])")
  case Nil
  then show "(case filter (\<lambda>k. s ! k = c) (rev [slice_index i (length s)..<slice_index j (length s)]) of
       [] \<Rightarrow> - 1 | k # x \<Rightarrow> int k) < int (length s)" by simp
next
  case (Cons k ks)
  hence "k \<in> set (filter (\<lambda>k. s ! k = c) (rev [slice_index i (length s)..<slice_index j (length s)]))"
    by simp
  hence "k < slice_index j (length s)" by auto
  moreover have "slice_index j (length s) \<le> length s" by (auto simp: slice_index_def)
  ultimately show "(case filter (\<lambda>k. s ! k = c) (rev [slice_index i (length s)..<slice_index j (length s)]) of
       [] \<Rightarrow> - 1 | k # x \<Rightarrow> int k) < int (length s)" using Cons by simp
qed

lemma chunk_step_start:
  "0 < overlap \<Longrightarrow> snd (chunk_step text chunk_size overlap start acc) < int (length text)"
  using rfind_char_bound [of "text" "CHR ''.''" "min (start + chunk_size) (int (length text)) - 100"
      "min (start + chunk_size) (int (length text))"]
  by (auto simp: chunk_step_def Let_def)

lemma chunk_loop_diverges_aux:
  "chunk_loop text chunk_size overlap start acc = Some r \<Longrightarrow>
     \<not> (0 < overlap \<and> start < int (length text))"
proof -
  assume major: "chunk_loop text chunk_size overlap start acc = Some r"
  show ?thesis
  proof (rule chunk_loop.raw_induct
      [where P = "\<lambda>tx cs ov st ch r. \<not> (0 < ov \<and> st < int (length tx))", OF _ major])
  fix f tx cs ov st ch r
  assume ih: "\<And>tx cs ov st ch r. f tx cs ov st ch = Some r \<Longrightarrow> \<not> (0 < ov \<and> st < int (length tx))"
    and body: "(if st < int (length tx)
      then case chunk_step tx cs ov st ch of
           (ch', st') \<Rightarrow> if int (length tx) \<le> st' then Some ch' else f tx cs ov st' ch'
      else Some ch) = Some r"
  show "\<not> (0 < ov \<and> st < int (length tx))"
  proof
    assume a: "0 < ov \<and> st < int (length tx)"
    obtain ch' st' where s: "chunk_step tx cs ov st ch = (ch', st')"
      by (cases "chunk_step tx cs ov st ch")
    have lt: "st' < int (length tx)"
      using chunk_step_start [of ov tx cs st ch] a s by simp
    from body a s lt have "f tx cs ov st' ch' = Some r"
      by simp
    from ih [OF this] a lt show False by simp
  qed
qed
qed

lemma chunk_loop_diverges:
  "0 < overlap \<Longrightarrow> start < int (length text) \<Longrightarrow> chunk_loop text chunk_size overlap start acc = None"
  using chunk_loop_diverges_aux [of "text" chunk_size overlap start acc]
  by (cases "chunk_loop text chunk_size overlap start acc") auto

lemma split_into_chunks_diverges:
  "chunk_size < int (length text) \<Longrightarrow> 0 < overlap \<Longrightarrow> text \<noteq> [] \<Longrightarrow>
     split_into_chunks text chunk_size overlap = None"
  by (simp add: split_into_chunks_def chunk_loop_diverges)

lemma split_into_chunks_short:
  "int (length text) \<le> chunk_size \<Longrightarrow> split_into_chunks text chunk_size overlap = Some [text]"
  by (simp add: split_into_chunks_def)

text \<open>
  Claim C9.  A text no longer than the chunk size comes back as the single chunk
  \<open>[text]\<close>.  For a longer, non-empty text and a positive overlap the loop never
  returns: after every pass \<open>start = end - overlap\<close> is below the length of the text,
  so neither the loop test nor the \<^verbatim>\<open>break\<close> can end it.  With the defaults (chunk
  size 500, overlap 100) a text of 501 characters has no chunks at all.
\<close>

theorem split_into_chunks_diverges_on_long_text:
  "(\<forall>text chunk_size overlap. int (length text) \<le> chunk_size \<longrightarrow>
      split_into_chunks text chunk_size overlap = Some [text]) \<and>
   (\<forall>text chunk_size overlap. chunk_size < int (length text) \<and> 0 < overlap \<and> text \<noteq> [] \<longrightarrow>
      split_into_chunks text chunk_size overlap = None) \<and>
   split_into_chunks (replicate 501 CHR ''a'') 500 100 = None"
proof -
  have "split_into_chunks (replicate 501 CHR ''a'') 500 100 = None"
    by (rule split_into_chunks_diverges) simp_all
  thus ?thesis using split_into_chunks_short split_into_chunks_diverges by blast
qed

theorem split_into_chunks_diverges_on_long_text_witness:
  "split_into_chunks ''Cash 100'' 500 100 = Some [''Cash 100''] \<and>
   split_into_chunks (replicate 600 CHR ''.'') 500 100 = None"
proof -
  have a: "int (length ''Cash 100'') \<le> 500" by simp
  have b: "500 < int (length (replicate 600 CHR ''.'')) \<and> (0::int) < 100 \<and> replicate 600 CHR ''.'' \<noteq> []"
    by simp
  show ?thesis using a b split_into_chunks_diverges_on_long_text by blast
qed


lemma first_match_index:
  "i < length tbl \<Longrightarrow> entry_matches (tbl ! i) s \<Longrightarrow>
     (\<forall>j < i. \<not> entry_matches (tbl ! j) s) \<Longrightarrow> first_match tbl s = Some (fst (tbl ! i))"
proof (induction tbl arbitrary: i)
  case Nil
  then show ?case by simp
next
  case (Cons e tbl)
  obtain c ps where e: "e = (c, ps)" by (cases e)
  show ?case
  proof (cases i)
    case 0
    with Cons(3) e show ?thesis by (simp add: entry_matches_def)
  next
    case (Suc k)
    with Cons(4) have n: "\<not> entry_matches e s" by auto
    have "\<forall>j < k. \<not> entry_matches (tbl ! j) s"
      using Cons(4) Suc by auto
    with Cons(1) [of k] Cons(2,3) Suc have "first_match tbl s = Some (fst (tbl ! k))" by simp
    with n e Suc show ?thesis by (simp add: entry_matches_def)
  qed
qed

lemma first_match_None:
  "first_match tbl s = None \<longleftrightarrow> \<not> table_matches tbl s"
  by (induction tbl s rule: first_match.induct) (auto simp: table_matches_def entry_matches_def)

lemmas regex_eval = lit_def ws_def dot_def dots_def asset_patterns_def liability_patterns_def
  equity_patterns_def categorize_balance_sheet_item_def general_category_def any_in_def
  table_matches_def entry_matches_def text_eval

lemma categorize_asset:
  assumes "i < length asset_patterns" "entry_matches (asset_patterns ! i) (lower label)"
    "\<forall>j < i. \<not> entry_matches (asset_patterns ! j) (lower label)"
  shows "categorize_balance_sheet_item label = ''asset_'' @ asset_value (fst (asset_patterns ! i))"
  using first_match_index [OF assms]
  by (simp add: categorize_balance_sheet_item_def)

lemma categorize_liability:
  assumes "\<not> table_matches asset_patterns (lower label)"
    "i < length liability_patterns" "entry_matches (liability_patterns ! i) (lower label)"
    "\<forall>j < i. \<not> entry_matches (liability_patterns ! j) (lower label)"
  shows "categorize_balance_sheet_item label =
           ''liability_'' @ liability_value (fst (liability_patterns ! i))"
  using first_match_index [OF assms(2-4)] assms(1) first_match_None [of asset_patterns "lower label"]
  by (simp add: categorize_balance_sheet_item_def)

lemma categorize_equity:
  assumes "\<not> table_matches asset_patterns (lower label)"
    "\<not> table_matches liability_patterns (lower label)"
    "i < length equity_patterns" "entry_matches (equity_patterns ! i) (lower label)"
    "\<forall>j < i. \<not> entry_matches (equity_patterns ! j) (lower label)"
  shows "categorize_balance_sheet_item label = ''equity_'' @ equity_value (fst (equity_patterns ! i))"
  using first_match_index [OF assms(3-5)] assms(1,2)
    first_match_None [of asset_patterns "lower label"]
    first_match_None [of liability_patterns "lower label"]
  by (simp add: categorize_balance_sheet_item_def)

lemma categorize_general:
  assumes "\<not> table_matches asset_patterns (lower label)"
    "\<not> table_matches liability_patterns (lower label)"
    "\<not> table_matches equity_patterns (lower label)"
  shows "categorize_balance_sheet_item label = general_category (lower label)"
  using assms first_match_None [of asset_patterns "lower label"]
    first_match_None [of liability_patterns "lower label"]
    first_match_None [of equity_patterns "lower label"]
  by (simp add: categorize_balance_sheet_item_def)

lemma general_category_unknown:
  "general_category s = ''unknown'' \<longleftrightarrow>
     \<not> any_in [''asset'', ''cash'', ''receivable'', ''inventory'', ''property'', ''equipment'',
                ''investment'', ''liability'', ''payable'', ''debt'', ''loan'', ''obligation'',
                ''accrued'', ''equity'', ''capital'', ''earnings'', ''retained'', ''stock''] s"
  by (simp add: general_category_def any_in_def)

lemma take_eq_prefix: "take (length sub) s = sub \<longleftrightarrow> (\<exists>post. s = sub @ post)"
proof
  assume "take (length sub) s = sub"
  hence "s = sub @ drop (length sub) s" by (metis append_take_drop_id)
  thus "\<exists>post. s = sub @ post" ..
next
  assume "\<exists>post. s = sub @ post"
  thus "take (length sub) s = sub" by auto
qed

lemma contains_substring: "contains s sub \<longleftrightarrow> (\<exists>pre post. s = pre @ sub @ post)"
proof (induction s)
  case Nil
  show ?case by auto
next
  case (Cons c cs)
  have "(\<exists>pre post. c # cs = pre @ sub @ post) \<longleftrightarrow>
        (\<exists>post. c # cs = sub @ post) \<or> (\<exists>pre post. cs = pre @ sub @ post)"
  proof
    assume "\<exists>pre post. c # cs = pre @ sub @ post"
    then obtain pre post where p: "c # cs = pre @ sub @ post" by blast
    show "(\<exists>post. c # cs = sub @ post) \<or> (\<exists>pre post. cs = pre @ sub @ post)"
    proof (cases pre)
      case Nil
      with p show ?thesis by auto
    next
      case (Cons d ds)
      with p have "cs = ds @ sub @ post" by simp
      thus ?thesis by blast
    qed
  next
    assume "(\<exists>post. c # cs = sub @ post) \<or> (\<exists>pre post. cs = pre @ sub @ post)"
    thus "\<exists>pre post. c # cs = pre @ sub @ post"
    proof
      assume "\<exists>post. c # cs = sub @ post"
      then obtain post where "c # cs = [] @ sub @ post" by auto
      thus ?thesis by blast
    next
      assume "\<exists>pre post. cs = pre @ sub @ post"
      then obtain pre post where "cs = pre @ sub @ post" by blast
      hence "c # cs = (c # pre) @ sub @ post" by simp
      thus ?thesis by blast
    qed
  qed
  thus ?case using Cons.IH by (simp add: take_eq_prefix del: take_Suc_Cons)
qed

lemma any_in_substring:
  "any_in terms s \<longleftrightarrow> (\<exists>t \<in> set terms. \<exists>pre post. s = pre @ t @ post)"
  by (simp add: any_in_def list_ex_iff contains_substring)

lemma general_category_asset:
  "general_category s = ''asset_other'' \<longleftrightarrow>
     any_in [''asset'', ''cash'', ''receivable'', ''inventory'', ''property'', ''equipment'',
             ''investment''] s"
  by (simp add: general_category_def)

lemma general_category_liability:
  "general_category s = ''liability_other'' \<longleftrightarrow>
     \<not> any_in [''asset'', ''cash'', ''receivable'', ''inventory'', ''property'', ''equipment'',
               ''investment''] s \<and>
     any_in [''liability'', ''payable'', ''debt'', ''loan'', ''obligation'', ''accrued''] s"
  by (simp add: general_category_def)

lemma general_category_equity:
  "general_category s = ''equity_other'' \<longleftrightarrow>
     \<not> any_in [''asset'', ''cash'', ''receivable'', ''inventory'', ''property'', ''equipment'',
               ''investment''] s \<and>
     \<not> any_in [''liability'', ''payable'', ''debt'', ''loan'', ''obligation'', ''accrued''] s \<and>
     any_in [''equity'', ''capital'', ''earnings'', ''retained'', ''stock''] s"
  by (simp add: general_category_def)

lemma category_examples:
  "categorize_balance_sheet_item ''Total assets'' = ''asset_other''"
  "categorize_balance_sheet_item ''Bank loan'' = ''liability_other''"
  "categorize_balance_sheet_item ''Treasury stock'' = ''equity_other''"
  "categorize_balance_sheet_item ''Equipment loan'' = ''asset_other''"
  "categorize_balance_sheet_item ''Loan capital'' = ''liability_other''"
  "categorize_balance_sheet_item ''Goodwill'' = ''unknown''"
  "categorize_balance_sheet_item ''Retained earnings'' = ''equity_retained_earnings''"
  "categorize_balance_sheet_item ''Common stock'' = ''equity_share_capital''"
  "categorize_balance_sheet_item ''Long-term debt'' = ''liability_long_term_debt''"
  "categorize_balance_sheet_item ''Inventory'' = ''asset_inventory''"
  "categorize_balance_sheet_item ''Accounts Receivable'' = ''asset_accounts_receivable''"
  by (simp_all add: regex_eval)


text \<open>
  Claim C7.  The classifier tries the asset dictionary first, then the liability
  dictionary, then the equity dictionary, each in its own order, and answers with the
  first category one of whose patterns matches the lower-cased label: an asset match
  wins whatever the liability and equity patterns say.  With no pattern match the
  answer is the coarse keyword category: \<open>asset_other\<close> when one of the asset keywords
  occurs in the label, else \<open>liability_other\<close> when a liability keyword occurs, else
  \<open>equity_other\<close> when an equity keyword occurs, and \<open>unknown\<close> exactly when no keyword
  occurs; a keyword occurs when it is a substring of the lower-cased label.  The three
  examples of the specification hold; \<open>Cash payables\<close>, which matches a liability pattern
  too, is an asset; \<open>Retained earnings\<close> and \<open>Common stock\<close> get their equity categories;
  \<open>Total assets\<close>, \<open>Bank loan\<close> and \<open>Treasury stock\<close> match no pattern and get the three
  coarse categories, \<open>Equipment loan\<close> the asset one and \<open>Loan capital\<close> the liability one,
  the keyword lists being tried in the same order.
\<close>

theorem categorize_balance_sheet_item_order:
  "(\<forall>label i. i < length asset_patterns \<and> entry_matches (asset_patterns ! i) (lower label) \<and>
      (\<forall>j < i. \<not> entry_matches (asset_patterns ! j) (lower label)) \<longrightarrow>
      categorize_balance_sheet_item label = ''asset_'' @ asset_value (fst (asset_patterns ! i))) \<and>
   (\<forall>label i. \<not> table_matches asset_patterns (lower label) \<and>
      i < length liability_patterns \<and> entry_matches (liability_patterns ! i) (lower label) \<and>
      (\<forall>j < i. \<not> entry_matches (liability_patterns ! j) (lower label)) \<longrightarrow>
      categorize_balance_sheet_item label =
        ''liability_'' @ liability_value (fst (liability_patterns ! i))) \<and>
   (\<forall>label i. \<not> table_matches asset_patterns (lower label) \<and>
      \<not> table_matches liability_patterns (lower label) \<and>
      i < length equity_patterns \<and> entry_matches (equity_patterns ! i) (lower label) \<and>
      (\<forall>j < i. \<not> entry_matches (equity_patterns ! j) (lower label)) \<longrightarrow>
      categorize_balance_sheet_item label = ''equity_'' @ equity_value (fst (equity_patterns ! i))) \<and>
   (\<forall>label. \<not> table_matches asset_patterns (lower label) \<and>
      \<not> table_matches liability_patterns (lower label) \<and>
      \<not> table_matches equity_patterns (lower label) \<longrightarrow>
      categorize_balance_sheet_item label = general_category (lower label)) \<and>
   (\<forall>s. general_category s = ''unknown'' \<longleftrightarrow>
      \<not> any_in [''asset'', ''cash'', ''receivable'', ''inventory'', ''property'', ''equipment'',
                ''investment'', ''liability'', ''payable'', ''debt'', ''loan'', ''obligation'',
                ''accrued'', ''equity'', ''capital'', ''earnings'', ''retained'', ''stock''] s) \<and>
   categorize_balance_sheet_item ''Cash and cash equivalents'' = ''asset_cash_and_equivalents'' \<and>
   categorize_balance_sheet_item ''Accounts payable'' = ''liability_accounts_payable'' \<and>
   categorize_balance_sheet_item ''xyz123'' = ''unknown'' \<and>
   table_matches liability_patterns (lower ''Cash payables'') \<and>
   categorize_balance_sheet_item ''Cash payables'' = ''asset_cash_and_equivalents'' \<and>
   (\<forall>terms s. any_in terms s \<longleftrightarrow> (\<exists>t \<in> set terms. \<exists>pre post. s = pre @ t @ post)) \<and>
   (\<forall>s. general_category s = ''asset_other'' \<longleftrightarrow>
      any_in [''asset'', ''cash'', ''receivable'', ''inventory'', ''property'', ''equipment'',
              ''investment''] s) \<and>
   (\<forall>s. general_category s = ''liability_other'' \<longleftrightarrow>
      \<not> any_in [''asset'', ''cash'', ''receivable'', ''inventory'', ''property'', ''equipment'',
                ''investment''] s \<and>
      any_in [''liability'', ''payable'', ''debt'', ''loan'', ''obligation'', ''accrued''] s) \<and>
   (\<forall>s. general_category s = ''equity_other'' \<longleftrightarrow>
      \<not> any_in [''asset'', ''cash'', ''receivable'', ''inventory'', ''property'', ''equipment'',
                ''investment''] s \<and>
      \<not> any_in [''liability'', ''payable'', ''debt'', ''loan'', ''obligation'', ''accrued''] s \<and>
      any_in [''equity'', ''capital'', ''earnings'', ''retained'', ''stock''] s) \<and>
   categorize_balance_sheet_item ''Total assets'' = ''asset_other'' \<and>
   categorize_balance_sheet_item ''Bank loan'' = ''liability_other'' \<and>
   categorize_balance_sheet_item ''Treasury stock'' = ''equity_other'' \<and>
   categorize_balance_sheet_item ''Equipment loan'' = ''asset_other'' \<and>
   categorize_balance_sheet_item ''Loan capital'' = ''liability_other'' \<and>
   categorize_balance_sheet_item ''Goodwill'' = ''unknown'' \<and>
   categorize_balance_sheet_item ''Retained earnings'' = ''equity_retained_earnings'' \<and>
   categorize_balance_sheet_item ''Common stock'' = ''equity_share_capital'' \<and>
   categorize_balance_sheet_item ''Long-term debt'' = ''liability_long_term_debt'' \<and>
   categorize_balance_sheet_item ''Inventory'' = ''asset_inventory'' \<and>
   categorize_balance_sheet_item ''Accounts Receivable'' = ''asset_accounts_receivable''"
proof -
  have ex1: "categorize_balance_sheet_item ''Cash and cash equivalents'' = ''asset_cash_and_equivalents''"
    by (simp add: regex_eval)
  have ex2: "categorize_balance_sheet_item ''Accounts payable'' = ''liability_accounts_payable''"
    by (simp add: regex_eval)
  have ex3: "categorize_balance_sheet_item ''xyz123'' = ''unknown''"
    by (simp add: regex_eval)
  have ex4: "categorize_balance_sheet_item ''Cash payables'' = ''asset_cash_and_equivalents''"
    by (simp add: regex_eval)
  have ex5: "table_matches liability_patterns (lower ''Cash payables'')"
    by (simp add: regex_eval)
  have a: "\<forall>label i. i < length asset_patterns \<and> entry_matches (asset_patterns ! i) (lower label) \<and>
      (\<forall>j < i. \<not> entry_matches (asset_patterns ! j) (lower label)) \<longrightarrow>
      categorize_balance_sheet_item label = ''asset_'' @ asset_value (fst (asset_patterns ! i))"
    using categorize_asset by blast
  have l: "\<forall>label i. \<not> table_matches asset_patterns (lower label) \<and>
      i < length liability_patterns \<and> entry_matches (liability_patterns ! i) (lower label) \<and>
      (\<forall>j < i. \<not> entry_matches (liability_patterns ! j) (lower label)) \<longrightarrow>
      categorize_balance_sheet_item label =
        ''liability_'' @ liability_value (fst (liability_patterns ! i))"
    using categorize_liability by blast
  have e: "\<forall>label i. \<not> table_matches asset_patterns (lower label) \<and>
      \<not> table_matches liability_patterns (lower label) \<and>
      i < length equity_patterns \<and> entry_matches (equity_patterns ! i) (lower label) \<and>
      (\<forall>j < i. \<not> entry_matches (equity_patterns ! j) (lower label)) \<longrightarrow>
      categorize_balance_sheet_item label = ''equity_'' @ equity_value (fst (equity_patterns ! i))"
    using categorize_equity by blast
  have g: "\<forall>label. \<not> table_matches asset_patterns (lower label) \<and>
      \<not> table_matches liability_patterns (lower label) \<and>
      \<not> table_matches equity_patterns (lower label) \<longrightarrow>
      categorize_balance_sheet_item label = general_category (lower label)"
    using categorize_general by blast
  have u: "\<forall>s. general_category s = ''unknown'' \<longleftrightarrow>
      \<not> any_in [''asset'', ''cash'', ''receivable'', ''inventory'', ''property'', ''equipment'',
                ''investment'', ''liability'', ''payable'', ''debt'', ''loan'', ''obligation'',
                ''accrued'', ''equity'', ''capital'', ''earnings'', ''retained'', ''stock''] s"
    by (intro allI) (rule general_category_unknown)
  have s: "\<forall>terms s. any_in terms s \<longleftrightarrow> (\<exists>t \<in> set terms. \<exists>pre post. s = pre @ t @ post)"
    by (intro allI) (rule any_in_substring)
  have ga: "\<forall>s. general_category s = ''asset_other'' \<longleftrightarrow>
      any_in [''asset'', ''cash'', ''receivable'', ''inventory'', ''property'', ''equipment'',
              ''investment''] s"
    by (intro allI) (rule general_category_asset)
  have gl: "\<forall>s. general_category s = ''liability_other'' \<longleftrightarrow>
      \<not> any_in [''asset'', ''cash'', ''receivable'', ''inventory'', ''property'', ''equipment'',
                ''investment''] s \<and>
      any_in [''liability'', ''payable'', ''debt'', ''loan'', ''obligation'', ''accrued''] s"
    by (intro allI) (rule general_category_liability)
  have ge: "\<forall>s. general_category s = ''equity_other'' \<longleftrightarrow>
      \<not> any_in [''asset'', ''cash'', ''receivable'', ''inventory'', ''property'', ''equipment'',
                ''investment''] s \<and>
      \<not> any_in [''liability'', ''payable'', ''debt'', ''loan'', ''obligation'', ''accrued''] s \<and>
      any_in [''equity'', ''capital'', ''earnings'', ''retained'', ''stock''] s"
    by (intro allI) (rule general_category_equity)
  show ?thesis
    by (intro conjI) (rule a l e g u ex1 ex2 ex3 ex4 ex5 s ga gl ge category_examples)+
qed

theorem categorize_balance_sheet_item_order_witness:
  "entry_matches (asset_patterns ! 0) (lower ''Cash payables'') \<and>
   categorize_balance_sheet_item ''Cash payables'' = ''asset_'' @ asset_value (fst (asset_patterns ! 0)) \<and>
   entry_matches (liability_patterns ! 0) (lower ''Accounts payable'') \<and>
   categorize_balance_sheet_item ''Accounts payable'' =
     ''liability_'' @ liability_value (fst (liability_patterns ! 0)) \<and>
   entry_matches (equity_patterns ! 1) (lower ''Retained earnings'') \<and>
   categorize_balance_sheet_item ''Retained earnings'' =
     ''equity_'' @ equity_value (fst (equity_patterns ! 1)) \<and>
   categorize_balance_sheet_item ''Goodwill'' = general_category (lower ''Goodwill'') \<and>
   categorize_balance_sheet_item ''Retained earnings'' = ''equity_retained_earnings'' \<and>
   \<not> table_matches asset_patterns (lower ''Total assets'') \<and>
   \<not> table_matches liability_patterns (lower ''Total assets'') \<and>
   \<not> table_matches equity_patterns (lower ''Total assets'') \<and>
   any_in [''asset'', ''cash'', ''receivable'', ''inventory'', ''property'', ''equipment'',
           ''investment''] (lower ''Total assets'') \<and>
   categorize_balance_sheet_item ''Total assets'' = ''asset_other'' \<and>
   \<not> table_matches asset_patterns (lower ''Bank loan'') \<and>
   \<not> table_matches liability_patterns (lower ''Bank loan'') \<and>
   \<not> table_matches equity_patterns (lower ''Bank loan'') \<and>
   categorize_balance_sheet_item ''Bank loan'' = ''liability_other'' \<and>
   \<not> table_matches asset_patterns (lower ''Treasury stock'') \<and>
   \<not> table_matches liability_patterns (lower ''Treasury stock'') \<and>
   \<not> table_matches equity_patterns (lower ''Treasury stock'') \<and>
   categorize_balance_sheet_item ''Treasury stock'' = ''equity_other'' \<and>
   categorize_balance_sheet_item ''Goodwill'' = ''unknown''"
proof -
  note t = categorize_balance_sheet_item_order
  have ta: "\<forall>label i. i < length asset_patterns \<and> entry_matches (asset_patterns ! i) (lower label) \<and>
      (\<forall>j < i. \<not> entry_matches (asset_patterns ! j) (lower label)) \<longrightarrow>
      categorize_balance_sheet_item label = ''asset_'' @ asset_value (fst (asset_patterns ! i))"
    using t by (elim conjE) assumption
  have tl: "\<forall>label i. \<not> table_matches asset_patterns (lower label) \<and>
      i < length liability_patterns \<and> entry_matches (liability_patterns ! i) (lower label) \<and>
      (\<forall>j < i. \<not> entry_matches (liability_patterns ! j) (lower label)) \<longrightarrow>
      categorize_balance_sheet_item label =
        ''liability_'' @ liability_value (fst (liability_patterns ! i))"
    using t by (elim conjE) assumption
  have te: "\<forall>label i. \<not> table_matches asset_patterns (lower label) \<and>
      \<not> table_matches liability_patterns (lower label) \<and>
      i < length equity_patterns \<and> entry_matches (equity_patterns ! i) (lower label) \<and>
      (\<forall>j < i. \<not> entry_matches (equity_patterns ! j) (lower label)) \<longrightarrow>
      categorize_balance_sheet_item label = ''equity_'' @ equity_value (fst (equity_patterns ! i))"
    using t by (elim conjE) assumption
  have tg: "\<forall>label. \<not> table_matches asset_patterns (lower label) \<and>
      \<not> table_matches liability_patterns (lower label) \<and>
      \<not> table_matches equity_patterns (lower label) \<longrightarrow>
      categorize_balance_sheet_item label = general_category (lower label)"
    using t by (elim conjE) assumption
  have tu: "\<forall>s. general_category s = ''unknown'' \<longleftrightarrow>
      \<not> any_in [''asset'', ''cash'', ''receivable'', ''inventory'', ''property'', ''equipment'',
                ''investment'', ''liability'', ''payable'', ''debt'', ''loan'', ''obligation'',
                ''accrued'', ''equity'', ''capital'', ''earnings'', ''retained'', ''stock''] s"
    using t by (elim conjE) assumption
  have tga: "\<forall>s. general_category s = ''asset_other'' \<longleftrightarrow>
      any_in [''asset'', ''cash'', ''receivable'', ''inventory'', ''property'', ''equipment'',
              ''investment''] s"
    using t by (elim conjE) assumption
  have tgl: "\<forall>s. general_category s = ''liability_other'' \<longleftrightarrow>
      \<not> any_in [''asset'', ''cash'', ''receivable'', ''inventory'', ''property'', ''equipment'',
                ''investment''] s \<and>
      any_in [''liability'', ''payable'', ''debt'', ''loan'', ''obligation'', ''accrued''] s"
    using t by (elim conjE) assumption
  have tge: "\<forall>s. general_category s = ''equity_other'' \<longleftrightarrow>
      \<not> any_in [''asset'', ''cash'', ''receivable'', ''inventory'', ''property'', ''equipment'',
                ''investment''] s \<and>
      \<not> any_in [''liability'', ''payable'', ''debt'', ''loan'', ''obligation'', ''accrued''] s \<and>
      any_in [''equity'', ''capital'', ''earnings'', ''retained'', ''stock''] s"
    using t by (elim conjE) assumption
  have a: "(0::nat) < length asset_patterns \<and> entry_matches (asset_patterns ! 0) (lower ''Cash payables'') \<and>
      (\<forall>j < (0::nat). \<not> entry_matches (asset_patterns ! j) (lower ''Cash payables''))"
    by (simp add: regex_eval)
  have na: "\<not> table_matches asset_patterns (lower ''Accounts payable'')"
    by (simp add: regex_eval)
  have l: "(0::nat) < length liability_patterns \<and>
      entry_matches (liability_patterns ! 0) (lower ''Accounts payable'') \<and>
      (\<forall>j < (0::nat). \<not> entry_matches (liability_patterns ! j) (lower ''Accounts payable''))"
    by (simp add: regex_eval)
  have ne: "\<not> table_matches asset_patterns (lower ''Retained earnings'')"
      "\<not> table_matches liability_patterns (lower ''Retained earnings'')"
    by (simp_all add: regex_eval)
  have e: "(1::nat) < length equity_patterns \<and>
      entry_matches (equity_patterns ! 1) (lower ''Retained earnings'') \<and>
      (\<forall>j < (1::nat). \<not> entry_matches (equity_patterns ! j) (lower ''Retained earnings''))"
    by (simp add: regex_eval)
  have g: "\<not> table_matches asset_patterns (lower ''Goodwill'')"
      "\<not> table_matches liability_patterns (lower ''Goodwill'')"
      "\<not> table_matches equity_patterns (lower ''Goodwill'')"
    by (simp_all add: regex_eval)
  have n1: "\<not> table_matches asset_patterns (lower ''Total assets'')"
      "\<not> table_matches liability_patterns (lower ''Total assets'')"
      "\<not> table_matches equity_patterns (lower ''Total assets'')"
    by (simp_all add: regex_eval)
  have n2: "\<not> table_matches asset_patterns (lower ''Bank loan'')"
      "\<not> table_matches liability_patterns (lower ''Bank loan'')"
      "\<not> table_matches equity_patterns (lower ''Bank loan'')"
    by (simp_all add: regex_eval)
  have n3: "\<not> table_matches asset_patterns (lower ''Treasury stock'')"
      "\<not> table_matches liability_patterns (lower ''Treasury stock'')"
      "\<not> table_matches equity_patterns (lower ''Treasury stock'')"
    by (simp_all add: regex_eval)
  have k1: "any_in [''asset'', ''cash'', ''receivable'', ''inventory'', ''property'', ''equipment'',
           ''investment''] (lower ''Total assets'')"
    by (simp add: any_in_def text_eval)
  have k2: "\<not> any_in [''asset'', ''cash'', ''receivable'', ''inventory'', ''property'', ''equipment'',
                ''investment''] (lower ''Bank loan'') \<and>
      any_in [''liability'', ''payable'', ''debt'', ''loan'', ''obligation'', ''accrued'']
        (lower ''Bank loan'')"
    by (simp add: any_in_def text_eval)
  have k3: "\<not> any_in [''asset'', ''cash'', ''receivable'', ''inventory'', ''property'', ''equipment'',
                ''investment''] (lower ''Treasury stock'') \<and>
      \<not> any_in [''liability'', ''payable'', ''debt'', ''loan'', ''obligation'', ''accrued'']
        (lower ''Treasury stock'') \<and>
      any_in [''equity'', ''capital'', ''earnings'', ''retained'', ''stock'']
        (lower ''Treasury stock'')"
    by (simp add: any_in_def text_eval)
  have k4: "\<not> any_in [''asset'', ''cash'', ''receivable'', ''inventory'', ''property'', ''equipment'',
                ''investment'', ''liability'', ''payable'', ''debt'', ''loan'', ''obligation'',
                ''accrued'', ''equity'', ''capital'', ''earnings'', ''retained'', ''stock'']
        (lower ''Goodwill'')"
    by (simp add: any_in_def text_eval)
  have 1: "entry_matches (asset_patterns ! 0) (lower ''Cash payables'')" using a by simp
  have 2: "categorize_balance_sheet_item ''Cash payables'' =
      ''asset_'' @ asset_value (fst (asset_patterns ! 0))"
    using ta [rule_format, OF a] .
  have 3: "entry_matches (liability_patterns ! 0) (lower ''Accounts payable'')" using l by simp
  have 4: "categorize_balance_sheet_item ''Accounts payable'' =
     ''liability_'' @ liability_value (fst (liability_patterns ! 0))"
    using tl [rule_format, OF conjI [OF na l]] .
  have 5: "entry_matches (equity_patterns ! 1) (lower ''Retained earnings'')" using e by simp
  have 6: "categorize_balance_sheet_item ''Retained earnings'' =
     ''equity_'' @ equity_value (fst (equity_patterns ! 1))"
    using te [rule_format, OF conjI [OF ne(1) conjI [OF ne(2) e]]] .
  have 7: "categorize_balance_sheet_item ''Goodwill'' = general_category (lower ''Goodwill'')"
    using tg [rule_format, OF conjI [OF g(1) conjI [OF g(2) g(3)]]] .
  have 8: "categorize_balance_sheet_item ''Retained earnings'' = ''equity_retained_earnings''"
    unfolding 6 by (simp add: equity_patterns_def)
  have 9: "categorize_balance_sheet_item ''Total assets'' = ''asset_other''"
    using tg [rule_format, OF conjI [OF n1(1) conjI [OF n1(2) n1(3)]]]
      tga [rule_format, of "lower ''Total assets''"] k1 by simp
  have 10: "categorize_balance_sheet_item ''Bank loan'' = ''liability_other''"
    using tg [rule_format, OF conjI [OF n2(1) conjI [OF n2(2) n2(3)]]]
      tgl [rule_format, of "lower ''Bank loan''"] k2 by simp
  have 11: "categorize_balance_sheet_item ''Treasury stock'' = ''equity_other''"
    using tg [rule_format, OF conjI [OF n3(1) conjI [OF n3(2) n3(3)]]]
      tge [rule_format, of "lower ''Treasury stock''"] k3 by simp
  have 12: "categorize_balance_sheet_item ''Goodwill'' = ''unknown''"
    using 7 tu [rule_format, of "lower ''Goodwill''"] k4 by simp
  show ?thesis
    by (intro conjI) (rule 1 2 3 4 5 6 7 8 9 10 11 12 n1 n2 n3 k1)+
qed

lemmas csv_eval = empty_def cell_def clean_dataframe_def keep_row_text_def dataframe_to_text_def
  is_balance_sheet_line_item_def startswith_def add_row_item_def
  extract_balance_sheet_from_dataframe_def is_financial_dataframe_def isdigit_def section_of_def
  analyze_csv_structure_def scenario_frame_def

lemma scenario_clean:
  "clean_dataframe scenario_frame =
     \<lparr>columns = [''Item'', ''2023'', ''2022''],
      df_rows = [[''Cash and equivalents'', ''1000'', ''900''],
                 [''Accounts payable'', ''500'', ''450''],
                 [''Total assets'', ''1500'', ''1350'']]\<rparr>"
  by (simp add: csv_eval upt_rec)

lemma scenario_text:
  "lower (dataframe_to_text (clean_dataframe scenario_frame)) =
     ''item,2023,2022'' @ CHR 0x0A # ''cash and equivalents,1000,900'' @ CHR 0x0A #
     ''accounts payable,500,450'' @ CHR 0x0A # ''total assets,1500,1350''"
  unfolding scenario_clean by (simp add: csv_eval text_eval)

lemma scenario_analysis:
  "analyze_csv_structure (clean_dataframe scenario_frame) =
     \<lparr>likely_balance_sheet = False, confidence_score = 1 / 4,
      structure_type = ''time_series_financial'', time_series = True, multi_period = True,
      identified_sections = {''assets''}\<rparr>"
  unfolding analyze_csv_structure_def scenario_text
  unfolding scenario_clean
  by (simp add: csv_eval regex_eval)

lemma scenario_cats:
  "categorize_balance_sheet_item ''Cash and equivalents'' = ''asset_cash_and_equivalents''"
  "categorize_balance_sheet_item ''Accounts payable'' = ''liability_accounts_payable''"
  "categorize_balance_sheet_item ''Total assets'' = ''asset_other''"
  by (simp_all add: regex_eval)

lemma scenario_strip:
  "strip ''Cash and equivalents'' = ''Cash and equivalents''"
  "strip ''Accounts payable'' = ''Accounts payable''"
  "strip ''Total assets'' = ''Total assets''"
  by (simp_all add: text_eval)

lemma scenario_items:
  "map category (assets (extract_balance_sheet_from_dataframe (clean_dataframe scenario_frame))) =
     [''asset_cash_and_equivalents'', ''asset_other''] \<and>
   map category (liabilities (extract_balance_sheet_from_dataframe (clean_dataframe scenario_frame))) =
     [''liability_accounts_payable''] \<and>
   equity (extract_balance_sheet_from_dataframe (clean_dataframe scenario_frame)) = []"
  unfolding scenario_clean
  unfolding extract_balance_sheet_from_dataframe_def add_row_item_def
  by (simp add: scenario_strip scenario_cats empty_def is_balance_sheet_line_item_def any_in_def
      startswith_def text_eval)

text \<open>
  Claim C4, as amended.  On the scenario's CSV the structure analysis scores 25 points
  (10 for the word \<open>assets\<close>, 15 for the two year columns; only three line items and one
  section label, so neither of the other two bonuses): the confidence is 0.25 and
  \<open>likely_balance_sheet\<close> is false.  The extracted items do include one categorized
  \<open>asset_cash_and_equivalents\<close> and one categorized \<open>liability_accounts_payable\<close>.
\<close>

theorem scenario_confidence_is_quarter:
  "confidence_score (analyze_csv_structure (clean_dataframe scenario_frame)) = 1 / 4 \<and>
   likely_balance_sheet (analyze_csv_structure (clean_dataframe scenario_frame)) = False \<and>
   (\<exists>item \<in> set (assets (extract_balance_sheet_from_dataframe (clean_dataframe scenario_frame))).
      category item = ''asset_cash_and_equivalents'') \<and>
   (\<exists>item \<in> set (liabilities (extract_balance_sheet_from_dataframe (clean_dataframe scenario_frame))).
      category item = ''liability_accounts_payable'')"
proof -
  let ?items = "extract_balance_sheet_from_dataframe (clean_dataframe scenario_frame)"
  have "''asset_cash_and_equivalents'' \<in> set (map category (assets ?items))"
    and "''liability_accounts_payable'' \<in> set (map category (liabilities ?items))"
    using scenario_items by simp_all
  thus ?thesis unfolding scenario_analysis by auto
qed

theorem scenario_confidence_is_quarter_witness:
  "\<not> 3 / 10 < confidence_score (analyze_csv_structure (clean_dataframe scenario_frame))"
  using scenario_confidence_is_quarter by simp

theorem scenario_confidence_counterexample:
  "\<not> (3 / 10 < confidence_score (analyze_csv_structure (clean_dataframe scenario_frame)) \<and>
      likely_balance_sheet (analyze_csv_structure (clean_dataframe scenario_frame)) = True \<and>
      (\<exists>item \<in> set (assets (extract_balance_sheet_from_dataframe (clean_dataframe scenario_frame))).
         category item = ''asset_cash_and_equivalents'') \<and>
      (\<exists>item \<in> set (liabilities (extract_balance_sheet_from_dataframe (clean_dataframe scenario_frame))).
         category item = ''liability_accounts_payable''))"
  unfolding scenario_analysis by simp

lemma split_into_chunks_Some:
  "split_into_chunks text 500 100 = Some cs \<Longrightarrow> cs = [text]"
proof -
  assume a: "split_into_chunks text 500 100 = Some cs"
  show ?thesis
  proof (cases "int (length text) \<le> 500")
    case True
    with a show ?thesis by (simp add: split_into_chunks_def)
  next
    case False
    hence "split_into_chunks text 500 100 = None"
      by (intro split_into_chunks_diverges) auto
    with a show ?thesis by simp
  qed
qed

lemma chunking_cases:
  "chunking text =
     (if length text \<le> 500 then Some (Inr [text])
      else if last_window text \<noteq> [] then Some (Inl (Exn [])) else None)"
proof (cases "length text \<le> 500")
  case True
  then show ?thesis by (simp add: chunking_def split_into_chunks_def)
next
  case False
  hence "split_into_chunks text 500 100 = None"
    by (intro split_into_chunks_diverges) auto
  with False show ?thesis by (simp add: chunking_def)
qed

lemma chunking_Inr: "chunking text = Some (Inr cs) \<Longrightarrow> cs = [text]"
  by (simp add: chunking_cases split: if_splits)

lemma chunking_Inl: "chunking text = Some (Inl e) \<Longrightarrow> e = Exn []"
  by (simp add: chunking_cases split: if_splits)












lemma make_chunks_index: "map chunk_index (make_chunks s cs) = [0..<length cs]"
  by (simp add: make_chunks_def enumerate_eq_zip map_zip_map split_def comp_def)

lemma make_chunks_text: "map chunk_text (make_chunks s cs) = cs"
  by (simp add: make_chunks_def enumerate_eq_zip split_def comp_def)


lemma guarded_Inr:
  "guarded prefix body = Some (Inr r) \<Longrightarrow>
     body = Some (Inr r) \<or> (\<exists>msg. body = Some (Inl (Exn msg)) \<and> r = failed_result\<lparr>errors := [prefix @ msg]\<rparr>)"
  by (auto simp: guarded_def split: option.splits sum.splits exn.splits)


lemma guarded_raise:
  "body = Some (Inl e) \<Longrightarrow>
     \<exists>r. guarded prefix body = Some (Inr r) \<and> success r = False \<and> errors r \<noteq> [] \<and>
         chunks r = [] \<and> tables r = [] \<and> metadata r = None"
  by (cases e) (simp add: guarded_def failed_result_def)

lemma csv_body_cases:
  "csv_body env = Some (Inr r) \<Longrightarrow>
     (\<not> success r \<and> errors r \<noteq> []) \<or> (success r \<and> map chunk_index (chunks r) = [0])"
  by (auto simp: make_chunks_index csv_body_def failed_result_def Let_def
      split: option.splits if_splits sum.splits dest!: chunking_Inr)

lemma pdf_text_content_plumber:
  "pdf_text_content env =
     (if too_short (extract_with_pdfplumber env) then ([], False)
      else (extract_with_pdfplumber env, False))"
  by (simp add: pdf_text_content_def extract_with_pypdf2_def extract_with_ocr_def
      fallback_names_bound_def too_short_def Let_def)

lemma pdf_body_cases:
  "pdf_body env = Some (Inr r) \<Longrightarrow>
     (\<not> success r \<and> errors r \<noteq> []) \<or>
     (success r \<and> map chunk_index (chunks r) = [0] \<and>
        \<not> too_short (extract_with_pdfplumber env) \<and>
        map chunk_text (chunks r) = [clean_text (extract_with_pdfplumber env)] \<and>
        (\<exists>m. metadata r = Some m \<and> extraction_method m = ''pdfplumber''))"
  by (auto simp: make_chunks_index make_chunks_text pdf_body_def pdf_text_content_plumber
      failed_result_def Let_def determine_extraction_method_def
      split: option.splits if_splits sum.splits dest!: chunking_Inr)

lemma xml_body_cases:
  "xml_body env = Some (Inr r) \<Longrightarrow> success r \<and> map chunk_index (chunks r) = [0]"
  by (auto simp: make_chunks_index xml_body_def Let_def
      split: option.splits if_splits sum.splits dest!: chunking_Inr)



lemma csv_parse_cases:
  "csv_parse env = Some (Inr r) \<Longrightarrow>
     (\<not> success r \<and> errors r \<noteq> []) \<or> (success r \<and> map chunk_index (chunks r) = [0])"
  unfolding csv_parse_def
  by (drule guarded_Inr) (auto dest: csv_body_cases simp: failed_result_def)

lemma pdf_parse_cases:
  "pdf_parse env = Some (Inr r) \<Longrightarrow>
     (\<not> success r \<and> errors r \<noteq> []) \<or>
     (success r \<and> map chunk_index (chunks r) = [0] \<and>
        \<not> too_short (extract_with_pdfplumber env) \<and>
        map chunk_text (chunks r) = [clean_text (extract_with_pdfplumber env)] \<and>
        (\<exists>m. metadata r = Some m \<and> extraction_method m = ''pdfplumber''))"
  unfolding pdf_parse_def
  by (drule guarded_Inr) (auto dest: pdf_body_cases simp: failed_result_def)

lemma xml_parse_cases:
  "xml_parse env = Some (Inr r) \<Longrightarrow>
     (\<not> success r \<and> errors r \<noteq> []) \<or> (success r \<and> map chunk_index (chunks r) = [0])"
  unfolding xml_parse_def
  by (drule guarded_Inr) (auto dest: xml_body_cases simp: failed_result_def)












lemmas parse_eval = guarded_def failed_result_def make_chunks_def enumerate_eq_zip
  chunking_cases detect_scale_def
  excel_parse_def excel_body_def excel_sheets_body_def process_sheet_def
  excel_clean_dataframe_def excel_dataframe_to_text_def excel_extract_table_def
  pdf_parse_def pdf_body_def pdf_text_content_plumber too_short_def extract_with_pdfplumber_def
  get_page_count_def determine_extraction_method_def
  clean_text_def printable_def page_tables_def
  xml_parse_def xml_body_def parsed_tables_def
  empty_def cell_def

lemma empty_workbook_result:
  "excel_parse empty_workbook =
     Some (Inr \<lparr>success = True, chunks = [], tables = [], figures = [],
                metadata = Some \<lparr>sheet_count = 1, sheet_names = [''Sheet1'']\<rparr>,
                errors = [], warnings = []\<rparr>)"
  by (simp add: empty_workbook_def parse_eval)

lemma two_sheet_indices:
  "\<exists>r. excel_parse two_sheet_workbook = Some (Inr r) \<and> success r \<and>
       map chunk_index (chunks r) = [0, 0] \<and> length (tables r) = 2"
  by (simp add: two_sheet_workbook_def parse_eval text_eval upt_rec)

lemma malformed_xml_result:
  "xml_parse malformed_xml =
     Some (Inr (failed_result\<lparr>errors := [''XML/XBRL parsing failed: no element found: line 1, column 0'']\<rparr>))"
  by (simp add: malformed_xml_def parse_eval)

lemma strip_id: "s \<noteq> [] \<Longrightarrow> \<not> is_space (hd s) \<Longrightarrow> \<not> is_space (last s) \<Longrightarrow> strip s = s"
proof -
  assume a: "s \<noteq> []" "\<not> is_space (hd s)" "\<not> is_space (last s)"
  have l: "lstrip s = s" using a(1,2) by (cases s) (simp_all add: lstrip_def)
  have "rev s \<noteq> []" "\<not> is_space (hd (rev s))" using a(1,3) by (simp_all add: hd_rev)
  hence "dropWhile is_space (rev s) = rev s" by (cases "rev s") simp_all
  thus ?thesis by (simp add: strip_def rstrip_def l)
qed

lemma collapse_id: "\<forall>c \<in> set s. \<not> is_space c \<Longrightarrow> collapse_whitespace s = s"
  by (induction s rule: collapse_whitespace.induct) auto

lemma not_space_a: "\<not> is_space CHR ''a''" "\<not> is_space CHR ''7''" "\<not> is_space (CHR 0xE9)"
  "\<not> is_space CHR ''C''" "\<not> is_space CHR ''I''" "is_space CHR '' ''"
  by (simp_all add: is_space_def)

lemma statement_strip: "strip statement_text = statement_text"
  by (simp add: statement_text_def text_eval)

lemma statement_clean: "clean_text statement_text = statement_text"
  by (simp add: statement_text_def clean_text_def printable_def text_eval)

lemma statement_length: "length statement_text = 108"
  by (simp add: statement_text_def)

lemma statement_nonempty: "statement_text \<noteq> []"
  using statement_length by auto

lemma pdfplumber_pdf_result:
  "\<exists>r m. pdf_parse pdfplumber_pdf = Some (Inr r) \<and> success r \<and>
       map chunk_text (chunks r) = [statement_text] \<and> warnings r = [] \<and>
       metadata r = Some m \<and> extraction_method m = ''pdfplumber''"
  using statement_nonempty
  by (simp add: pdfplumber_pdf_def pdf_parse_def pdf_body_def pdf_text_content_plumber
      extract_with_pdfplumber_def too_short_def statement_strip statement_length
      statement_clean chunking_cases guarded_def make_chunks_text determine_extraction_method_def)





lemma accented_pdf_result:
  "\<exists>r. pdf_parse accented_pdf = Some (Inr r) \<and> success r \<and> map chunk_text (chunks r) = [[]]"
proof -
  let ?t = "replicate 100 (CHR 0xE9)"
  have p: "extract_with_pdfplumber accented_pdf = ?t"
    by (simp add: extract_with_pdfplumber_def accented_pdf_def)
  have s: "strip ?t = ?t" by (rule strip_id) (simp_all add: not_space_a)
  have ts: "\<not> too_short ?t" by (simp add: too_short_def s)
  have c: "collapse_whitespace ?t = ?t" by (rule collapse_id) (simp add: not_space_a)
  have f: "filter printable ?t = []" by (simp add: printable_def)
  have cl: "clean_text ?t = []" by (simp add: clean_text_def c f strip_def lstrip_def rstrip_def)
  show ?thesis
    using ts
    by (simp add: pdf_parse_def pdf_body_def pdf_text_content_plumber p cl chunking_cases
        guarded_def make_chunks_text)
qed






















text \<open>
  Claim C2.  A successful CSV, PDF or XML parse has at least one chunk.  The Excel entry
  point has no such guard: for a workbook whose only sheet has no cells it returns
  \<open>success = True\<close> with no chunk and no table.
\<close>

theorem excel_success_without_chunk_or_table:
  "(\<forall>env r. csv_parse env = Some (Inr r) \<and> success r \<longrightarrow> chunks r \<noteq> []) \<and>
   (\<forall>env r. pdf_parse env = Some (Inr r) \<and> success r \<longrightarrow> chunks r \<noteq> []) \<and>
   (\<forall>env r. xml_parse env = Some (Inr r) \<and> success r \<longrightarrow> chunks r \<noteq> []) \<and>
   (\<exists>r. excel_parse empty_workbook = Some (Inr r) \<and> success r \<and> chunks r = [] \<and> tables r = [])"
proof -
  have "\<forall>env r. csv_parse env = Some (Inr r) \<and> success r \<longrightarrow> chunks r \<noteq> []"
    using csv_parse_cases by fastforce
  moreover have "\<forall>env r. pdf_parse env = Some (Inr r) \<and> success r \<longrightarrow> chunks r \<noteq> []"
    using pdf_parse_cases by fastforce
  moreover have "\<forall>env r. xml_parse env = Some (Inr r) \<and> success r \<longrightarrow> chunks r \<noteq> []"
    using xml_parse_cases by fastforce
  moreover have "\<exists>r. excel_parse empty_workbook = Some (Inr r) \<and> success r \<and> chunks r = [] \<and>
      tables r = []"
    by (simp add: empty_workbook_result)
  ultimately show ?thesis by blast
qed

theorem excel_success_without_chunk_or_table_witness:
  "\<exists>r. pdf_parse pdfplumber_pdf = Some (Inr r) \<and> success r \<and> chunks r \<noteq> []"
proof -
  obtain r where r: "pdf_parse pdfplumber_pdf = Some (Inr r)" "success r"
    using pdfplumber_pdf_result by blast
  hence "chunks r \<noteq> []" using excel_success_without_chunk_or_table by blast
  with r show ?thesis by blast
qed

text \<open>
  Claim C3.  A successful CSV, PDF or XML parse numbers its chunks 0, 1, ... in order.
  The Excel entry point numbers the chunks of every sheet from 0 and concatenates them:
  a workbook with two small sheets yields the indices 0, 0.  And a chunk's text can be
  empty: a PDF from which pdfplumber extracts 100 accented letters and nothing else
  yields one chunk with the empty text.
\<close>

theorem excel_chunk_index_restarts_per_sheet:
  "(\<forall>env r. csv_parse env = Some (Inr r) \<and> success r \<longrightarrow>
      map chunk_index (chunks r) = [0..<length (chunks r)]) \<and>
   (\<forall>env r. pdf_parse env = Some (Inr r) \<and> success r \<longrightarrow>
      map chunk_index (chunks r) = [0..<length (chunks r)]) \<and>
   (\<forall>env r. xml_parse env = Some (Inr r) \<and> success r \<longrightarrow>
      map chunk_index (chunks r) = [0..<length (chunks r)]) \<and>
   (\<exists>r. excel_parse two_sheet_workbook = Some (Inr r) \<and> success r \<and>
      map chunk_index (chunks r) = [0, 0] \<and> \<not> distinct (map chunk_index (chunks r))) \<and>
   (\<exists>r. pdf_parse accented_pdf = Some (Inr r) \<and> success r \<and>
      map chunk_text (chunks r) = [[]])"
proof -
  have up: "\<And>xs :: DocumentChunk list. map chunk_index xs = [0] \<Longrightarrow>
      map chunk_index xs = [0..<length xs]"
  proof -
    fix xs :: "DocumentChunk list"
    assume m: "map chunk_index xs = [0]"
    hence "length xs = 1" by (metis length_map length_Cons list.size(3) One_nat_def)
    with m show "map chunk_index xs = [0..<length xs]" by simp
  qed
  have "\<forall>env r. csv_parse env = Some (Inr r) \<and> success r \<longrightarrow>
      map chunk_index (chunks r) = [0..<length (chunks r)]"
    using csv_parse_cases up by blast
  moreover have "\<forall>env r. pdf_parse env = Some (Inr r) \<and> success r \<longrightarrow>
      map chunk_index (chunks r) = [0..<length (chunks r)]"
    using pdf_parse_cases up by blast
  moreover have "\<forall>env r. xml_parse env = Some (Inr r) \<and> success r \<longrightarrow>
      map chunk_index (chunks r) = [0..<length (chunks r)]"
    using xml_parse_cases up by blast
  moreover have "\<exists>r. excel_parse two_sheet_workbook = Some (Inr r) \<and> success r \<and>
      map chunk_index (chunks r) = [0, 0] \<and> \<not> distinct (map chunk_index (chunks r))"
    using two_sheet_indices by auto
  moreover from accented_pdf_result have "\<exists>r. pdf_parse accented_pdf = Some (Inr r) \<and>
      success r \<and> map chunk_text (chunks r) = [[]]"
    by (elim exE conjE) (rule exI, simp)
  ultimately show ?thesis by blast
qed

theorem excel_chunk_index_restarts_per_sheet_witness:
  "\<exists>r. pdf_parse accented_pdf = Some (Inr r) \<and> success r \<and>
       map chunk_index (chunks r) = [0..<length (chunks r)]"
proof -
  obtain r where r: "pdf_parse accented_pdf = Some (Inr r)" "success r"
    using accented_pdf_result by blast
  hence "map chunk_index (chunks r) = [0..<length (chunks r)]"
    using excel_chunk_index_restarts_per_sheet by blast
  with r show ?thesis by blast
qed




end
